theory Spec2Isabelle
  imports
    Main
    "HOL-Library.AList"
    "HOL-Library.Multiset"
    "HOL-Library.Char_ord"
    "HOL-Library.List_Lexorder"
    "HOL-Library.Product_Lexorder"
begin

text \<open>
  A model of the \<open>AnimalShelter\<close> repository class: create, read, update, delete and
  stats over a collection of animal records, with a best-effort audit trail. Each
  method is a function from the state before the call to its result (\<open>Inl\<close> an
  exception, \<open>Inr\<close> a value) and the state after it.
\<close>

section \<open>Values, dictionaries and exceptions\<close>

text \<open>
  The values a record field can hold. \<open>VTime\<close> is a UTC instant (a \<open>datetime\<close>),
  \<open>VId\<close> a database-generated identifier (an \<open>ObjectId\<close>), \<open>VDoc\<close> an embedded
  mapping. A Python \<open>dict\<close> is an association list in insertion order; looking a key
  up is \<open>map_of\<close>, and \<open>d[k] = v\<close> is \<open>AList.update\<close>: it overwrites the value
  in place when the key is there and appends the pair otherwise.
\<close>

datatype val =
    VNone
  | VBool bool
  | VInt int
  | VStr string
  | VTime nat
  | VId nat
  | VList "val list"
  | VDoc "(string \<times> val) list"

type_synonym dict = "(string \<times> val) list"

definition has_key :: "dict \<Rightarrow> string \<Rightarrow> bool" where
  \<comment> \<open>\<open>k in d\<close>\<close>
  "has_key d k = (map_of d k \<noteq> None)"

definition setitem :: "dict \<Rightarrow> string \<Rightarrow> val \<Rightarrow> dict" where
  \<comment> \<open>\<open>d[k] = v\<close>\<close>
  "setitem d k v = AList.update k v d"

definition py_get :: "dict \<Rightarrow> string \<Rightarrow> val" where
  \<comment> \<open>\<open>d.get(k)\<close>: \<open>None\<close> when the key is absent\<close>
  "py_get d k = (case map_of d k of None \<Rightarrow> VNone | Some v \<Rightarrow> v)"

fun truthy :: "val \<Rightarrow> bool" where
  \<comment> \<open>Python's truth value of an object\<close>
  "truthy VNone = False"
| "truthy (VBool b) = b"
| "truthy (VInt i) = (i \<noteq> 0)"
| "truthy (VStr s) = (s \<noteq> [])"
| "truthy (VTime t) = True"
| "truthy (VId n) = True"
| "truthy (VList xs) = (xs \<noteq> [])"
| "truthy (VDoc d) = (d \<noteq> [])"

fun py_join :: "string \<Rightarrow> string list \<Rightarrow> string" where
  \<comment> \<open>\<open>sep.join(xs)\<close>\<close>
  "py_join sep [] = []"
| "py_join sep [x] = x"
| "py_join sep (x # y # ys) = x @ sep @ py_join sep (y # ys)"

definition digit_char :: "nat \<Rightarrow> char" where
  "digit_char n = (''0123456789abcdef'' ! (n mod 16))"

function str_nat :: "nat \<Rightarrow> string" where
  \<comment> \<open>decimal rendering of a natural number\<close>
  "str_nat n = (if n < 10 then [digit_char n] else str_nat (n div 10) @ [digit_char (n mod 10)])"
  by pat_completeness auto
termination
  by (relation "measure (\<lambda>n. n)") auto

declare str_nat.simps [simp del]

primrec hex_digits :: "nat \<Rightarrow> nat \<Rightarrow> string" where
  \<comment> \<open>the last \<open>k\<close> hexadecimal digits of a number\<close>
  "hex_digits 0 n = []"
| "hex_digits (Suc k) n = hex_digits k (n div 16) @ [digit_char (n mod 16)]"

definition str_oid :: "nat \<Rightarrow> string" where
  \<comment> \<open>\<open>str(ObjectId)\<close>: 24 hexadecimal digits\<close>
  "str_oid n = hex_digits 24 n"

fun py_str :: "val \<Rightarrow> string" where
  \<comment> \<open>\<open>str(v)\<close>. Exact for \<open>None\<close>, booleans, integers, strings and identifiers;
      instants are rendered as their number, lists and embedded mappings by a fixed
      marker (their \<open>repr\<close> is not needed anywhere below).\<close>
  "py_str VNone = ''None''"
| "py_str (VBool b) = (if b then ''True'' else ''False'')"
| "py_str (VInt i) = (if i < 0 then ''-'' @ str_nat (nat (- i)) else str_nat (nat i))"
| "py_str (VStr s) = s"
| "py_str (VTime t) = str_nat t"
| "py_str (VId n) = str_oid n"
| "py_str (VList xs) = ''[...]''"
| "py_str (VDoc d) = ''{...}''"

text \<open>
  The exceptions the module distinguishes: \<open>ValueError\<close> (raised by its own
  validation; the specification's \<open>ValidationError\<close>), \<open>PyMongoError\<close> (raised by
  the database driver; the specification's \<open>DatabaseError\<close>) and every other
  \<open>Exception\<close>. Each carries its message.
\<close>

datatype exn = ValueError string | PyMongoError string | OtherError string

fun str_exn :: "exn \<Rightarrow> string" where
  "str_exn (ValueError m) = m"
| "str_exn (PyMongoError m) = m"
| "str_exn (OtherError m) = m"

text \<open>An argument of a call: a \<open>dict\<close> object, passed by reference (its address in the
  heap of dictionaries), or an object of another type.\<close>

datatype pyobj = PDict nat | PNone | PBool bool | PInt int | PStr string | PList "val list"

section \<open>The database collaborator\<close>

text \<open>
  Modelled from the spec: the database collaborator. The driver's \<open>Collection\<close> is
  a library, not part of the repository; the module only calls it. It is modelled,
  from the collaborator contract of the specification and the driver's interface, as an
  in-memory collection offering the calls the module makes: \<open>insert_one\<close>, \<open>find\<close>
  with \<open>sort\<close> and \<open>limit\<close>, \<open>update_many\<close> with \<open>$set\<close>, \<open>delete_many\<close>,
  \<open>count_documents\<close> and \<open>estimated_document_count\<close> (whose estimate is the exact
  count here).
  \<^item> \<open>docs\<close> are the stored documents in natural order, \<open>next_id\<close> the next
    generated identifier.
  \<^item> \<open>acknowledged\<close> is the write concern: whether the server acknowledges writes.
  \<^item> \<open>fault\<close> is an injected failure: while it is set, every call raises it and
    changes no stored document.
  \<^item> \<open>matcher\<close> is the server's meaning of a non-empty filter, opaque to the module;
    \<open>seed\<close> gives the fields an upsert takes from the filter. Field names are taken
    as top-level names.
  \<^item> \<open>calls\<close> records every call made to the collection, in order.
\<close>

datatype call =
    InsertOne dict
  | Find dict "dict option" "(string \<times> int) option" nat
  | UpdateMany dict dict bool
  | DeleteMany dict
  | CountDocuments dict
  | EstimatedDocumentCount

record collection =
  docs :: "dict list"
  next_id :: nat
  acknowledged :: bool
  fault :: "exn option"
  matcher :: "dict \<Rightarrow> dict \<Rightarrow> bool"
  seed :: "dict \<Rightarrow> dict"
  calls :: "call list"

definition matches :: "collection \<Rightarrow> dict \<Rightarrow> dict \<Rightarrow> bool" where
  \<comment> \<open>an empty filter matches every document\<close>
  "matches c q d = (q = [] \<or> matcher c q d)"

definition eq_fields :: "dict \<Rightarrow> dict \<Rightarrow> bool" where
  \<comment> \<open>the equality fragment of the filter language: every field of the filter has
      the same value in the document\<close>
  "eq_fields q d = list_all (\<lambda>(k, v). map_of d k = Some v) q"

definition recorded :: "call \<Rightarrow> collection \<Rightarrow> collection" where
  "recorded x c = c\<lparr>calls := calls c @ [x]\<rparr>"

definition with_id :: "dict \<Rightarrow> collection \<Rightarrow> dict \<times> collection" where
  \<comment> \<open>the driver adds a generated \<open>_id\<close> to a document that has none\<close>
  "with_id document c =
     (if has_key document ''_id'' then (document, c)
      else (setitem document ''_id'' (VId (next_id c)), c\<lparr>next_id := Suc (next_id c)\<rparr>))"

definition id_taken :: "val \<Rightarrow> collection \<Rightarrow> bool" where
  "id_taken i c = list_ex (\<lambda>d. map_of d ''_id'' = Some i) (docs c)"

datatype insert_result = InsertOneResult val bool

fun ir_inserted_id :: "insert_result \<Rightarrow> val" where
  "ir_inserted_id (InsertOneResult i a) = i"

fun ir_acknowledged :: "insert_result \<Rightarrow> bool" where
  "ir_acknowledged (InsertOneResult i a) = a"

definition insert_one :: "dict \<Rightarrow> collection \<Rightarrow> (exn + insert_result) \<times> dict \<times> collection" where
  \<comment> \<open>Modelled from the spec: the collaborator's insert-one.
      Returns the result, the document as the driver leaves it (with its \<open>_id\<close>) and
      the collection. A duplicate \<open>_id\<close> is an error when writes are acknowledged and
      is dropped silently when they are not.\<close>
  "insert_one document c =
     (let (document', c0) = with_id document c;
          c1 = recorded (InsertOne document') c0;
          i = py_get document' ''_id''
      in case fault c1 of
           Some e \<Rightarrow> (Inl e, document', c1)
         | None \<Rightarrow>
             if id_taken i c1 then
               (if acknowledged c1 then Inl (PyMongoError ''duplicate key error'')
                else Inr (InsertOneResult i False), document', c1)
             else (Inr (InsertOneResult i (acknowledged c1)), document',
                   c1\<lparr>docs := docs c1 @ [document']\<rparr>))"

subsection \<open>Queries: a lazy cursor\<close>

text \<open>
  \<open>find\<close> only builds a cursor; \<open>sort\<close> and \<open>limit\<close> set options on it, and the
  query runs when the cursor is iterated. The server filters, then sorts, then limits,
  then projects.
\<close>

record cursor =
  c_filter :: dict
  c_projection :: "dict option"
  c_sort :: "(string \<times> int) option"
  c_limit :: nat

definition find_coll :: "dict \<Rightarrow> dict option \<Rightarrow> cursor" where
  "find_coll q p = \<lparr>c_filter = q, c_projection = p, c_sort = None, c_limit = 0\<rparr>"

definition cursor_sort :: "string \<Rightarrow> int \<Rightarrow> cursor \<Rightarrow> cursor" where
  "cursor_sort f direction cur = cur\<lparr>c_sort := Some (f, direction)\<rparr>"

definition cursor_limit :: "int \<Rightarrow> cursor \<Rightarrow> cursor" where
  "cursor_limit n cur = cur\<lparr>c_limit := nat n\<rparr>"

fun sort_rank :: "val option \<Rightarrow> nat \<times> int \<times> string" where
  \<comment> \<open>The comparison order of values: a missing field sorts as null, below numbers,
      strings, embedded mappings, lists, identifiers, booleans and instants, in this
      order. Embedded mappings and lists are not compared further.\<close>
  "sort_rank None = (0, 0, [])"
| "sort_rank (Some VNone) = (0, 0, [])"
| "sort_rank (Some (VInt i)) = (1, i, [])"
| "sort_rank (Some (VStr s)) = (2, 0, s)"
| "sort_rank (Some (VDoc d)) = (3, 0, [])"
| "sort_rank (Some (VList xs)) = (4, 0, [])"
| "sort_rank (Some (VId n)) = (5, int n, [])"
| "sort_rank (Some (VBool b)) = (6, (if b then 1 else 0), [])"
| "sort_rank (Some (VTime t)) = (7, int t, [])"

definition sort_docs :: "(string \<times> int) option \<Rightarrow> dict list \<Rightarrow> dict list" where
  "sort_docs s ds =
     (case s of
        None \<Rightarrow> ds
      | Some (f, direction) \<Rightarrow>
          if direction = 1 then sort_key (\<lambda>d. sort_rank (map_of d f)) ds
          else rev (sort_key (\<lambda>d. sort_rank (map_of d f)) ds))"

definition limit_docs :: "nat \<Rightarrow> dict list \<Rightarrow> dict list" where
  \<comment> \<open>a limit of 0 is no limit\<close>
  "limit_docs n ds = (if n = 0 then ds else take n ds)"

definition proj_spec :: "dict \<Rightarrow> dict" where
  \<comment> \<open>the driver sends \<open>{_id: 1}\<close> for an empty projection\<close>
  "proj_spec p = (if p = [] then [(''_id'', VInt 1)] else p)"

definition proj_others :: "dict \<Rightarrow> dict" where
  "proj_others p = filter (\<lambda>(k, v). k \<noteq> ''_id'') (proj_spec p)"

definition proj_mixed :: "dict \<Rightarrow> bool" where
  \<comment> \<open>inclusions and exclusions cannot be mixed (apart from \<open>_id\<close>)\<close>
  "proj_mixed p = (list_ex (\<lambda>(k, v). truthy v) (proj_others p) \<and>
                   list_ex (\<lambda>(k, v). \<not> truthy v) (proj_others p))"

definition proj_inclusive :: "dict \<Rightarrow> bool" where
  "proj_inclusive p =
     (if proj_others p = [] then (case map_of (proj_spec p) ''_id'' of None \<Rightarrow> False | Some v \<Rightarrow> truthy v)
      else list_ex (\<lambda>(k, v). truthy v) (proj_others p))"

definition proj_keeps :: "dict \<Rightarrow> string \<Rightarrow> bool" where
  "proj_keeps p k =
     (if k = ''_id'' then (case map_of (proj_spec p) ''_id'' of None \<Rightarrow> True | Some v \<Rightarrow> truthy v)
      else if proj_inclusive p then (case map_of (proj_spec p) k of None \<Rightarrow> False | Some v \<Rightarrow> truthy v)
      else map_of (proj_spec p) k = None)"

definition project_doc :: "dict option \<Rightarrow> dict \<Rightarrow> dict" where
  "project_doc po d = (case po of None \<Rightarrow> d | Some p \<Rightarrow> filter (\<lambda>(k, v). proj_keeps p k) d)"

definition bad_sort :: "(string \<times> int) option \<Rightarrow> bool" where
  \<comment> \<open>a sort direction is 1 (ascending) or -1 (descending)\<close>
  "bad_sort s = (case s of None \<Rightarrow> False | Some (f, direction) \<Rightarrow> direction \<noteq> 1 \<and> direction \<noteq> - 1)"

definition bad_projection :: "dict option \<Rightarrow> bool" where
  "bad_projection po = (case po of None \<Rightarrow> False | Some p \<Rightarrow> proj_mixed p)"

definition selected :: "cursor \<Rightarrow> collection \<Rightarrow> dict list" where
  \<comment> \<open>the stored documents a cursor selects, before projection\<close>
  "selected cur c =
     limit_docs (c_limit cur) (sort_docs (c_sort cur) (filter (matches c (c_filter cur)) (docs c)))"

definition list_cursor :: "cursor \<Rightarrow> collection \<Rightarrow> (exn + dict list) \<times> collection" where
  \<comment> \<open>Modelled from the spec: the collaborator's find with filter, projection, sort
      and limit. \<open>list(cursor)\<close> runs the query.\<close>
  "list_cursor cur c =
     (let c1 = recorded (Find (c_filter cur) (c_projection cur) (c_sort cur) (c_limit cur)) c
      in case fault c1 of
           Some e \<Rightarrow> (Inl e, c1)
         | None \<Rightarrow>
             if bad_sort (c_sort cur) then (Inl (PyMongoError ''bad sort specification''), c1)
             else if bad_projection (c_projection cur) then
               (Inl (PyMongoError ''cannot mix inclusion and exclusion in projection''), c1)
             else (Inr (map (project_doc (c_projection cur)) (selected cur c1)), c1))"

definition estimated_document_count :: "collection \<Rightarrow> (exn + nat) \<times> collection" where
  \<comment> \<open>Modelled from the spec: the collaborator's estimated count\<close>
  "estimated_document_count c =
     (let c1 = recorded EstimatedDocumentCount c
      in case fault c1 of Some e \<Rightarrow> (Inl e, c1) | None \<Rightarrow> (Inr (length (docs c1)), c1))"

definition count_documents :: "dict \<Rightarrow> collection \<Rightarrow> (exn + nat) \<times> collection" where
  \<comment> \<open>Modelled from the spec: the collaborator's exact count\<close>
  "count_documents q c =
     (let c1 = recorded (CountDocuments q) c
      in case fault c1 of
           Some e \<Rightarrow> (Inl e, c1)
         | None \<Rightarrow> (Inr (length (filter (matches c1 q) (docs c1))), c1))"

subsection \<open>Writes to many documents\<close>

definition invalid_operation :: "string \<Rightarrow> exn" where
  \<comment> \<open>the driver's \<open>InvalidOperation\<close>, a \<open>PyMongoError\<close>: the counts of an
      unacknowledged write cannot be read\<close>
  "invalid_operation name =
     PyMongoError (''A value for '' @ name @ '' is not available when the write is unacknowledged'')"

datatype delete_result = DeleteResult nat bool

fun dr_acknowledged :: "delete_result \<Rightarrow> bool" where
  "dr_acknowledged (DeleteResult n a) = a"

fun deleted_count :: "delete_result \<Rightarrow> exn + nat" where
  "deleted_count (DeleteResult n a) = (if a then Inr n else Inl (invalid_operation ''deleted_count''))"

definition delete_many :: "dict \<Rightarrow> collection \<Rightarrow> (exn + delete_result) \<times> collection" where
  \<comment> \<open>Modelled from the spec: the collaborator's delete-many\<close>
  "delete_many q c =
     (let c1 = recorded (DeleteMany q) c
      in case fault c1 of
           Some e \<Rightarrow> (Inl e, c1)
         | None \<Rightarrow>
             (Inr (DeleteResult (length (filter (matches c1 q) (docs c1))) (acknowledged c1)),
              c1\<lparr>docs := filter (\<lambda>d. \<not> matches c1 q d) (docs c1)\<rparr>))"

definition set_fields :: "dict \<Rightarrow> dict \<Rightarrow> dict" where
  \<comment> \<open>\<open>$set\<close>: a partial merge of the named fields into a document\<close>
  "set_fields d nv = fold (\<lambda>(k, v). AList.update k v) nv d"

definition id_change :: "dict \<Rightarrow> dict \<Rightarrow> bool" where
  \<comment> \<open>\<open>_id\<close> is immutable: \<open>$set\<close> may only give it the value it has\<close>
  "id_change nv d = (case map_of nv ''_id'' of None \<Rightarrow> False | Some v \<Rightarrow> map_of d ''_id'' \<noteq> Some v)"

fun apply_set :: "(dict \<Rightarrow> bool) \<Rightarrow> dict \<Rightarrow> dict list \<Rightarrow> exn option \<times> dict list \<times> nat \<times> nat" where
  \<comment> \<open>Walks the documents in order and merges \<open>nv\<close> into those that match. Returns the
      error that stopped the walk (documents before it stay changed), the documents, and
      the numbers of documents matched and modified.\<close>
  "apply_set m nv [] = (None, [], 0, 0)"
| "apply_set m nv (d # ds) =
     (if \<not> m d then
        (case apply_set m nv ds of (e, ds', a, b) \<Rightarrow> (e, d # ds', a, b))
      else if id_change nv d then
        (Some (PyMongoError ''the immutable field _id cannot be modified''), d # ds, 0, 0)
      else
        (case apply_set m nv ds of
           (e, ds', a, b) \<Rightarrow>
             (e, set_fields d nv # ds', Suc a, (if set_fields d nv \<noteq> d then Suc b else b))))"

datatype update_result = UpdateResult nat nat val bool

fun ur_acknowledged :: "update_result \<Rightarrow> bool" where
  "ur_acknowledged (UpdateResult m n u a) = a"

fun matched_count :: "update_result \<Rightarrow> exn + nat" where
  "matched_count (UpdateResult m n u a) = (if a then Inr m else Inl (invalid_operation ''matched_count''))"

fun modified_count :: "update_result \<Rightarrow> exn + nat" where
  "modified_count (UpdateResult m n u a) = (if a then Inr n else Inl (invalid_operation ''modified_count''))"

fun upserted_id :: "update_result \<Rightarrow> exn + val" where
  "upserted_id (UpdateResult m n u a) = (if a then Inr u else Inl (invalid_operation ''upserted_id''))"

definition update_many :: "dict \<Rightarrow> dict \<Rightarrow> bool \<Rightarrow> collection \<Rightarrow> (exn + update_result) \<times> collection" where
  \<comment> \<open>Modelled from the spec: the collaborator's update-many with merge semantics and
      optional upsert, \<open>update_many(q, {"$set": nv}, upsert=upsert)\<close>. When nothing matches and
      \<open>upsert\<close> is set, one document is inserted, made of the filter's seed fields and
      the merged fields.\<close>
  "update_many q nv upsert c =
     (let c1 = recorded (UpdateMany q nv upsert) c
      in case fault c1 of
           Some e \<Rightarrow> (Inl e, c1)
         | None \<Rightarrow>
             (case apply_set (matches c1 q) nv (docs c1) of
                (Some e, ds', a, b) \<Rightarrow> (Inl e, c1\<lparr>docs := ds'\<rparr>)
              | (None, ds', a, b) \<Rightarrow>
                  if a = 0 \<and> upsert then
                    (let (document, c2) = with_id (set_fields (seed c1 q) nv) c1;
                         i = py_get document ''_id''
                     in if id_taken i c2 then
                          (if acknowledged c2 then Inl (PyMongoError ''duplicate key error'')
                           else Inr (UpdateResult 0 0 VNone False), c2)
                        else (Inr (UpdateResult 0 0 i (acknowledged c2)),
                              c2\<lparr>docs := docs c2 @ [document]\<rparr>))
                  else (Inr (UpdateResult a b VNone (acknowledged c1)), c1\<lparr>docs := ds'\<rparr>)))"

section \<open>The repository: \<open>AnimalShelter\<close>\<close>

text \<open>
  The state the module runs in: the heap of the callers' \<open>dict\<close> objects (an address
  that was never written holds the empty \<open>dict\<close>), the primary collection
  \<open>self.collection\<close>, the audit collection \<open>self.audits\<close>, the clock (\<open>clock w n\<close>
  is its \<open>n\<close>-th reading, \<open>ticks\<close> counts the readings taken), the lines the
  logger has written and the lines printed on standard output.
\<close>

datatype level = INFO | WARNING | ERROR

record world =
  heap :: "nat \<Rightarrow> dict"
  collection :: collection
  audits :: collection
  clock :: "nat \<Rightarrow> nat"
  ticks :: nat
  logged :: "(level \<times> string) list"
  printed :: "string list"

definition store :: "nat \<Rightarrow> dict \<Rightarrow> world \<Rightarrow> world" where
  \<comment> \<open>the \<open>dict\<close> object at an address gets new contents\<close>
  "store a d w = w\<lparr>heap := (heap w)(a := d)\<rparr>"

definition log_msg :: "level \<Rightarrow> string \<Rightarrow> world \<Rightarrow> world" where
  "log_msg l m w = w\<lparr>logged := logged w @ [(l, m)]\<rparr>"

definition utcnow :: "world \<Rightarrow> nat \<times> world" where
  \<comment> \<open>\<open>datetime.now(timezone.utc)\<close>: the next reading of the clock\<close>
  "utcnow w = (clock w (ticks w), w\<lparr>ticks := Suc (ticks w)\<rparr>)"

definition audit :: "string \<Rightarrow> dict \<Rightarrow> world \<Rightarrow> world" where
  \<comment> \<open>\<open>_audit\<close>: best effort; any exception of the insert is logged and dropped\<close>
  "audit action details w =
     (let (now, w1) = utcnow w;
          doc = [(''action'', VStr action), (''details'', VDoc details), (''ts'', VTime now)]
      in case insert_one doc (audits w1) of
           (Inl exc, doc', a') \<Rightarrow>
             log_msg WARNING (''audit_failed action='' @ action @ '' error='' @ str_exn exc)
               (w1\<lparr>audits := a'\<rparr>)
         | (Inr res, doc', a') \<Rightarrow> w1\<lparr>audits := a'\<rparr>)"

definition require_dict :: "(nat \<Rightarrow> dict) \<Rightarrow> pyobj \<Rightarrow> string \<Rightarrow> bool \<Rightarrow> exn + nat" where
  \<comment> \<open>\<open>_require_dict\<close>: returns the object it was given\<close>
  "require_dict h v name allow_empty =
     (case v of
        PDict a \<Rightarrow>
          if \<not> allow_empty \<and> h a = [] then Inl (ValueError (name @ '' must be a non-empty dict''))
          else Inr a
      | _ \<Rightarrow> Inl (ValueError (name @ '' must be a dict'')))"

definition validate_required_fields :: "dict \<Rightarrow> string list \<Rightarrow> exn + unit" where
  "validate_required_fields data required =
     (let missing = filter (\<lambda>f. \<not> has_key data f) required
      in if missing \<noteq> [] then
           Inl (ValueError (''missing required field(s): '' @ py_join '', '' missing))
         else Inr ())"

fun is_value_error :: "exn \<Rightarrow> bool" where
  "is_value_error (ValueError m) = True"
| "is_value_error e = False"

fun is_pymongo_error :: "exn \<Rightarrow> bool" where
  "is_pymongo_error (PyMongoError m) = True"
| "is_pymongo_error e = False"

definition on_error :: "(exn \<Rightarrow> bool) \<Rightarrow> string \<Rightarrow> (exn + 'a) \<times> world \<Rightarrow> (exn + 'a) \<times> world" where
  \<comment> \<open>\<open>except ... as exc: _logger.error(...); raise\<close>: an exception of a caught class
      is logged and raised again; any other passes through\<close>
  "on_error caught tag rw =
     (case rw of
        (Inl exc, w) \<Rightarrow>
          (Inl exc, if caught exc then log_msg ERROR (tag @ '' error='' @ str_exn exc) w else w)
      | (Inr x, w) \<Rightarrow> (Inr x, w))"

definition value_or_pymongo :: "exn \<Rightarrow> bool" where
  "value_or_pymongo e = (is_value_error e \<or> is_pymongo_error e)"

definition opt_str :: "string option \<Rightarrow> val" where
  "opt_str a = (case a of None \<Rightarrow> VNone | Some s \<Rightarrow> VStr s)"

subsection \<open>create\<close>

definition create_body :: "pyobj \<Rightarrow> string option \<Rightarrow> world \<Rightarrow> (exn + dict) \<times> world" where
  "create_body data actor w =
     (case require_dict (heap w) data ''data'' False of
        Inl exc \<Rightarrow> (Inl exc, w)
      | Inr doc \<Rightarrow>
          (case validate_required_fields (heap w doc) [''animal_id'', ''animal_type'', ''breed''] of
             Inl exc \<Rightarrow> (Inl exc, w)
           | Inr u \<Rightarrow>
               (let (now, w1) = utcnow w;
                    w2 = store doc (setitem (heap w1 doc) ''created_timestamp'' (VTime now)) w1
                in case insert_one (heap w2 doc) (collection w2) of
                     (Inl exc, doc', c') \<Rightarrow> (Inl exc, store doc doc' (w2\<lparr>collection := c'\<rparr>))
                   | (Inr res, doc', c') \<Rightarrow>
                       (let w3 = store doc doc' (w2\<lparr>collection := c'\<rparr>);
                            out = [(''ok'', VBool (ir_acknowledged res)),
                                   (''inserted_id'', VStr (py_str (ir_inserted_id res)))]
                        in (Inr out,
                            audit ''CREATE''
                              [(''actor'', opt_str actor), (''inserted_id'', py_get out ''inserted_id'')]
                              w3)))))"

definition create :: "pyobj \<Rightarrow> string option \<Rightarrow> world \<Rightarrow> (exn + dict) \<times> world" where
  "create data actor w = on_error value_or_pymongo ''create_failed'' (create_body data actor w)"

subsection \<open>read\<close>

definition read_cursor :: "(nat \<Rightarrow> dict) \<Rightarrow> dict \<Rightarrow> pyobj \<Rightarrow> int \<Rightarrow> string option \<Rightarrow> int \<Rightarrow> cursor" where
  \<comment> \<open>the cursor \<open>read\<close> builds: \<open>find\<close>, with the projection only when it is a
      \<open>dict\<close>, then \<open>sort\<close> when a sort field is given, then \<open>limit\<close> when the
      limit is positive\<close>
  "read_cursor h q projection limit sort_field sort_order =
     (let cur = (case projection of PDict p \<Rightarrow> find_coll q (Some (h p)) | _ \<Rightarrow> find_coll q None);
          cur = (case sort_field of
                   None \<Rightarrow> cur
                 | Some f \<Rightarrow> if f \<noteq> [] then cursor_sort f sort_order cur else cur);
          cur = (if limit \<noteq> 0 \<and> limit > 0 then cursor_limit limit cur else cur)
      in cur)"

definition read_body ::
  "pyobj \<Rightarrow> pyobj \<Rightarrow> int \<Rightarrow> string option \<Rightarrow> int \<Rightarrow> world \<Rightarrow> (exn + dict list) \<times> world" where
  "read_body query projection limit sort_field sort_order w =
     (case (if query = PNone then Inr []
            else map_sum id (heap w) (require_dict (heap w) query ''query'' True)) of
        Inl exc \<Rightarrow> (Inl exc, w)
      | Inr q \<Rightarrow>
          (case list_cursor (read_cursor (heap w) q projection limit sort_field sort_order)
                  (collection w) of
             (Inl exc, c') \<Rightarrow> (Inl exc, w\<lparr>collection := c'\<rparr>)
           | (Inr results, c') \<Rightarrow>
               (Inr results,
                log_msg INFO (''read count='' @ str_nat (length results)) (w\<lparr>collection := c'\<rparr>))))"

definition read ::
  "pyobj \<Rightarrow> pyobj \<Rightarrow> int \<Rightarrow> string option \<Rightarrow> int \<Rightarrow> world \<Rightarrow> (exn + dict list) \<times> world" where
  "read query projection limit sort_field sort_order w =
     on_error value_or_pymongo ''read_failed'' (read_body query projection limit sort_field sort_order w)"

subsection \<open>update\<close>

definition update_out :: "update_result \<Rightarrow> exn + dict" where
  \<comment> \<open>the result mapping; reading a count of an unacknowledged write raises\<close>
  "update_out res =
     (case matched_count res of
        Inl exc \<Rightarrow> Inl exc
      | Inr m \<Rightarrow>
          (case modified_count res of
             Inl exc \<Rightarrow> Inl exc
           | Inr n \<Rightarrow>
               (case upserted_id res of
                  Inl exc \<Rightarrow> Inl exc
                | Inr u \<Rightarrow>
                    Inr [(''ok'', VBool (ur_acknowledged res)),
                         (''matched'', VInt (int m)),
                         (''modified'', VInt (int n)),
                         (''upserted_id'', if truthy u then VStr (py_str u) else VNone)])))"

definition update_body :: "pyobj \<Rightarrow> pyobj \<Rightarrow> bool \<Rightarrow> string option \<Rightarrow> world \<Rightarrow> (exn + dict) \<times> world" where
  "update_body query new_values upsert actor w =
     (case require_dict (heap w) query ''query'' False of
        Inl exc \<Rightarrow> (Inl exc, w)
      | Inr q \<Rightarrow>
          (case require_dict (heap w) new_values ''new_values'' False of
             Inl exc \<Rightarrow> (Inl exc, w)
           | Inr nv \<Rightarrow>
               (let (now, w1) = utcnow w;
                    w2 = store nv (setitem (heap w1 nv) ''last_modified_timestamp'' (VTime now)) w1
                in case update_many (heap w2 q) (heap w2 nv) upsert (collection w2) of
                     (Inl exc, c') \<Rightarrow> (Inl exc, w2\<lparr>collection := c'\<rparr>)
                   | (Inr res, c') \<Rightarrow>
                       (case update_out res of
                          Inl exc \<Rightarrow> (Inl exc, w2\<lparr>collection := c'\<rparr>)
                        | Inr out \<Rightarrow>
                            (Inr out,
                             audit ''UPDATE''
                               [(''actor'', opt_str actor), (''matched'', py_get out ''matched''),
                                (''modified'', py_get out ''modified'')]
                               (w2\<lparr>collection := c'\<rparr>))))))"

definition update :: "pyobj \<Rightarrow> pyobj \<Rightarrow> bool \<Rightarrow> string option \<Rightarrow> world \<Rightarrow> (exn + dict) \<times> world" where
  "update query new_values upsert actor w =
     on_error value_or_pymongo ''update_failed'' (update_body query new_values upsert actor w)"

subsection \<open>delete\<close>

definition delete_out :: "delete_result \<Rightarrow> exn + dict" where
  "delete_out res =
     (case deleted_count res of
        Inl exc \<Rightarrow> Inl exc
      | Inr n \<Rightarrow> Inr [(''ok'', VBool (dr_acknowledged res)), (''deleted'', VInt (int n))])"

definition delete_body :: "pyobj \<Rightarrow> string option \<Rightarrow> bool \<Rightarrow> world \<Rightarrow> (exn + dict) \<times> world" where
  "delete_body query actor confirm_delete w =
     (case require_dict (heap w) query ''query'' False of
        Inl exc \<Rightarrow> (Inl exc, w)
      | Inr q \<Rightarrow>
          if heap w q = [] \<and> confirm_delete then
            (Inl (ValueError ''refusing to delete all documents; pass confirm_delete=False to override''), w)
          else
            (case delete_many (heap w q) (collection w) of
               (Inl exc, c') \<Rightarrow> (Inl exc, w\<lparr>collection := c'\<rparr>)
             | (Inr res, c') \<Rightarrow>
                 (case delete_out res of
                    Inl exc \<Rightarrow> (Inl exc, w\<lparr>collection := c'\<rparr>)
                  | Inr out \<Rightarrow>
                      (Inr out,
                       audit ''DELETE''
                         [(''actor'', opt_str actor), (''deleted'', py_get out ''deleted'')]
                         (w\<lparr>collection := c'\<rparr>)))))"

definition delete :: "pyobj \<Rightarrow> string option \<Rightarrow> bool \<Rightarrow> world \<Rightarrow> (exn + dict) \<times> world" where
  "delete query actor confirm_delete w =
     on_error value_or_pymongo ''delete_failed'' (delete_body query actor confirm_delete w)"

subsection \<open>stats\<close>

definition stats_body :: "world \<Rightarrow> (exn + dict) \<times> world" where
  "stats_body w =
     (case estimated_document_count (collection w) of
        (Inl exc, c') \<Rightarrow> (Inl exc, w\<lparr>collection := c'\<rparr>)
      | (Inr cnt, c') \<Rightarrow>
          (let latest = cursor_limit 1 (cursor_sort ''created_timestamp'' (- 1)
                          (find_coll [] (Some [(''created_timestamp'', VInt 1)])))
           in case list_cursor latest c' of
                (Inl exc, c'') \<Rightarrow> (Inl exc, w\<lparr>collection := c''\<rparr>)
              | (Inr rs, c'') \<Rightarrow>
                  (let latest_ts = py_get (case rs of [] \<Rightarrow> [] | d # ds \<Rightarrow> d) ''created_timestamp''
                   in (Inr [(''count'', VInt (int cnt)), (''latest_created_timestamp'', latest_ts)],
                       w\<lparr>collection := c''\<rparr>))))"

definition stats :: "world \<Rightarrow> (exn + dict) \<times> world" where
  "stats w = on_error is_pymongo_error ''stats_failed'' (stats_body w)"

section \<open>What the operations hand to the collection\<close>

text \<open>
  Names for the arguments the operations pass on, as functions of the state before the
  call. They are used to state what the operations do.
\<close>

definition read_filter :: "world \<Rightarrow> pyobj \<Rightarrow> dict" where
  \<comment> \<open>the filter \<open>read\<close> hands on: empty when \<open>query\<close> is \<open>None\<close>\<close>
  "read_filter w query = (case query of PDict a \<Rightarrow> heap w a | _ \<Rightarrow> [])"

definition read_projection :: "world \<Rightarrow> pyobj \<Rightarrow> dict option" where
  \<comment> \<open>the projection \<open>read\<close> hands on: none unless it is a \<open>dict\<close>\<close>
  "read_projection w projection = (case projection of PDict p \<Rightarrow> Some (heap w p) | _ \<Rightarrow> None)"

definition read_sort :: "string option \<Rightarrow> int \<Rightarrow> (string \<times> int) option" where
  \<comment> \<open>the sort \<open>read\<close> asks for: none without a sort field\<close>
  "read_sort sort_field sort_order =
     (case sort_field of None \<Rightarrow> None | Some f \<Rightarrow> if f \<noteq> [] then Some (f, sort_order) else None)"

definition created_record :: "world \<Rightarrow> nat \<Rightarrow> dict" where
  \<comment> \<open>the record \<open>create\<close> hands to the collection: the caller's mapping with
      \<open>created_timestamp\<close> set to the clock's reading, and the \<open>_id\<close> the driver adds\<close>
  "created_record w a =
     fst (with_id (setitem (heap w a) ''created_timestamp'' (VTime (clock w (ticks w)))) (collection w))"

definition stamped_values :: "world \<Rightarrow> nat \<Rightarrow> dict" where
  \<comment> \<open>the new values \<open>update\<close> hands to the collection: the caller's \<open>nv\<close> with
      \<open>last_modified_timestamp\<close> set to the clock's reading\<close>
  "stamped_values w nv = setitem (heap w nv) ''last_modified_timestamp'' (VTime (clock w (ticks w)))"

definition update_filter :: "world \<Rightarrow> nat \<Rightarrow> nat \<Rightarrow> dict" where
  \<comment> \<open>the filter \<open>update\<close> hands to the collection: the caller's \<open>q\<close> as it is
      after \<open>nv\<close> has been written to (they may be the same object)\<close>
  "update_filter w q nv = (if q = nv then stamped_values w nv else heap w q)"

definition stats_projection :: dict where
  \<comment> \<open>the projection \<open>stats\<close> asks for\<close>
  "stats_projection = [(''created_timestamp'', VInt 1)]"

definition latest_of :: "dict list \<Rightarrow> val" where
  \<comment> \<open>what \<open>stats\<close> reads off the first document of its descending sort\<close>
  "latest_of ds =
     (if ds = [] then VNone
      else py_get (last (sort_key (\<lambda>d. sort_rank (map_of d ''created_timestamp'')) ds)) ''created_timestamp'')"

section \<open>The first version of the module\<close>

text \<open>
  The repository keeps the version of the class that the one above rewrites
  (\<open>Original/AnimalShelter.py\<close>). It has no audit collection and no logger: it prints
  its progress, validates before its \<open>try\<close> block (except in \<open>read\<close>), and raises a
  plain \<open>Exception\<close> for everything, wrapping whatever is raised inside the
  \<open>try\<close> block. Its clock is \<open>datetime.now()\<close>.
\<close>

definition print_line :: "string \<Rightarrow> world \<Rightarrow> world" where
  "print_line s w = w\<lparr>printed := printed w @ [s]\<rparr>"

fun truthy_obj :: "(nat \<Rightarrow> dict) \<Rightarrow> pyobj \<Rightarrow> bool" where
  \<comment> \<open>the truth value of an argument: \<open>None\<close>, an empty container, zero and
      \<open>False\<close> are false\<close>
  "truthy_obj h (PDict a) = (h a \<noteq> [])"
| "truthy_obj h PNone = False"
| "truthy_obj h (PBool b) = b"
| "truthy_obj h (PInt i) = (i \<noteq> 0)"
| "truthy_obj h (PStr s) = (s \<noteq> [])"
| "truthy_obj h (PList xs) = (xs \<noteq> [])"

definition repr_strs :: "string list \<Rightarrow> string" where
  \<comment> \<open>how a list of field names is printed: \<open>['a', 'b']\<close>\<close>
  "repr_strs xs = ''['' @ py_join '', '' (map (\<lambda>s. [CHR 0x27] @ s @ [CHR 0x27]) xs) @ '']''"

definition wrapped :: "string \<Rightarrow> exn \<Rightarrow> exn" where
  \<comment> \<open>\<open>except Exception as e: raise Exception(f"... operation failed: {str(e)}")\<close>\<close>
  "wrapped operation e = OtherError (operation @ '' operation failed: '' @ str_exn e)"

definition create_orig :: "pyobj \<Rightarrow> world \<Rightarrow> (exn + bool) \<times> world" where
  "create_orig data w =
     (if \<not> truthy_obj (heap w) data then
        (Inl (OtherError ''Create operation failed: 'data' parameter is empty or None''), w)
      else
        (case data of
           PDict a \<Rightarrow>
             (let missing_fields = filter (\<lambda>field. \<not> has_key (heap w a) field)
                                     [''animal_id'', ''animal_type'', ''breed'']
              in if missing_fields \<noteq> [] then
                   (Inl (OtherError (''Create operation failed: Missing required fields: '' @
                                     repr_strs missing_fields)), w)
                 else
                   (let (now, w1) = utcnow w;
                        w2 = store a (setitem (heap w1 a) ''created_timestamp'' (VTime now)) w1
                    in case insert_one (heap w2 a) (collection w2) of
                         (Inl e, doc', c') \<Rightarrow>
                           (Inl (wrapped ''Create'' e), store a doc' (w2\<lparr>collection := c'\<rparr>))
                       | (Inr insert_result, doc', c') \<Rightarrow>
                           (let w3 = store a doc' (w2\<lparr>collection := c'\<rparr>)
                            in if ir_acknowledged insert_result then
                                 (Inr True,
                                  print_line (''Successfully created record for animal_id: '' @
                                              py_str (py_get doc' ''animal_id'')) w3)
                               else
                                 (Inr False,
                                  print_line ''Create operation was not acknowledged by database'' w3))))
         | _ \<Rightarrow> (Inl (OtherError ''Create operation failed: 'data' parameter must be a dictionary''), w)))"

definition read_orig ::
  "pyobj \<Rightarrow> pyobj \<Rightarrow> int \<Rightarrow> string option \<Rightarrow> int \<Rightarrow> world \<Rightarrow> (exn + dict list) \<times> world" where
  "read_orig query projection limit sort_field sort_order w =
     (case (case query of
              PNone \<Rightarrow> Inr []
            | PDict a \<Rightarrow> Inr (heap w a)
            | _ \<Rightarrow> Inl (OtherError ''Read operation failed: 'query' parameter must be a dictionary'')) of
        Inl e \<Rightarrow> (Inl (wrapped ''Read'' e), w)
      | Inr q \<Rightarrow>
          (let cursor = find_coll q None;
               cursor = (case projection of
                           PDict p \<Rightarrow> if truthy_obj (heap w) projection
                                      then find_coll q (Some (heap w p)) else cursor
                         | _ \<Rightarrow> cursor);
               cursor = (case sort_field of
                           None \<Rightarrow> cursor
                         | Some f \<Rightarrow> if f \<noteq> [] then cursor_sort f sort_order cursor else cursor);
               cursor = (if limit > 0 then cursor_limit limit cursor else cursor)
           in case list_cursor cursor (collection w) of
                (Inl e, c') \<Rightarrow> (Inl (wrapped ''Read'' e), w\<lparr>collection := c'\<rparr>)
              | (Inr results, c') \<Rightarrow>
                  (Inr results,
                   print_line (''Read operation successful: Retrieved '' @ str_nat (length results) @
                               '' document(s)'') (w\<lparr>collection := c'\<rparr>))))"

definition update_info :: "update_result \<Rightarrow> exn + dict" where
  "update_info res =
     (case matched_count res of
        Inl e \<Rightarrow> Inl e
      | Inr m \<Rightarrow>
          (case modified_count res of
             Inl e \<Rightarrow> Inl e
           | Inr n \<Rightarrow>
               (case upserted_id res of
                  Inl e \<Rightarrow> Inl e
                | Inr u \<Rightarrow>
                    Inr [(''acknowledged'', VBool (ur_acknowledged res)),
                         (''matched_count'', VInt (int m)),
                         (''modified_count'', VInt (int n)),
                         (''upserted_id'', u)])))"

definition update_orig :: "pyobj \<Rightarrow> pyobj \<Rightarrow> bool \<Rightarrow> world \<Rightarrow> (exn + dict) \<times> world" where
  "update_orig query new_values upsert w =
     (if \<not> truthy_obj (heap w) query then
        (Inl (OtherError ''Update operation failed: 'query' parameter is empty or None''), w)
      else if \<not> truthy_obj (heap w) new_values then
        (Inl (OtherError ''Update operation failed: 'new_values' parameter is empty or None''), w)
      else
        (case query of
           PDict q \<Rightarrow>
             (case new_values of
                PDict nv \<Rightarrow>
                  (let (now, w1) = utcnow w;
                       w2 = store nv (setitem (heap w1 nv) ''last_modified_timestamp'' (VTime now)) w1
                   in case update_many (heap w2 q) (heap w2 nv) upsert (collection w2) of
                        (Inl e, c') \<Rightarrow> (Inl (wrapped ''Update'' e), w2\<lparr>collection := c'\<rparr>)
                      | (Inr update_result, c') \<Rightarrow>
                          (case update_info update_result of
                             Inl e \<Rightarrow> (Inl (wrapped ''Update'' e), w2\<lparr>collection := c'\<rparr>)
                           | Inr result_info \<Rightarrow>
                               (Inr result_info,
                                print_line
                                  (if ur_acknowledged update_result then
                                     ''Update successful: '' @
                                     py_str (py_get result_info ''modified_count'') @
                                     '' document(s) modified''
                                   else ''Update operation was not acknowledged by database'')
                                  (w2\<lparr>collection := c'\<rparr>))))
              | _ \<Rightarrow>
                  (Inl (OtherError ''Update operation failed: 'new_values' parameter must be a dictionary''),
                   w))
         | _ \<Rightarrow> (Inl (OtherError ''Update operation failed: 'query' parameter must be a dictionary''), w)))"

definition delete_info :: "delete_result \<Rightarrow> exn + dict" where
  "delete_info res =
     (case deleted_count res of
        Inl e \<Rightarrow> Inl e
      | Inr n \<Rightarrow> Inr [(''acknowledged'', VBool (dr_acknowledged res)), (''deleted_count'', VInt (int n))])"

definition delete_orig :: "pyobj \<Rightarrow> bool \<Rightarrow> world \<Rightarrow> (exn + dict) \<times> world" where
  "delete_orig query confirm_delete w =
     (if \<not> truthy_obj (heap w) query then
        (Inl (OtherError ''Delete operation failed: 'query' parameter is empty or None''), w)
      else
        (case query of
           PDict q \<Rightarrow>
             if heap w q = [] \<and> confirm_delete then
               (Inl (OtherError (''Delete operation failed: Empty query would delete all documents. '' @
                                 ''Use confirm_delete=False to override.'')), w)
             else
               (case count_documents (heap w q) (collection w) of
                  (Inl e, c') \<Rightarrow> (Inl (wrapped ''Delete'' e), w\<lparr>collection := c'\<rparr>)
                | (Inr count_to_delete, c') \<Rightarrow>
                    if count_to_delete = 0 then
                      (Inr [(''acknowledged'', VBool True), (''deleted_count'', VInt 0)],
                       print_line ''Delete operation: No documents match the specified query''
                         (w\<lparr>collection := c'\<rparr>))
                    else
                      (case delete_many (heap w q) c' of
                         (Inl e, c'') \<Rightarrow> (Inl (wrapped ''Delete'' e), w\<lparr>collection := c''\<rparr>)
                       | (Inr delete_result, c'') \<Rightarrow>
                           (case delete_info delete_result of
                              Inl e \<Rightarrow> (Inl (wrapped ''Delete'' e), w\<lparr>collection := c''\<rparr>)
                            | Inr result_info \<Rightarrow>
                                (Inr result_info,
                                 print_line
                                   (if dr_acknowledged delete_result then
                                      ''Delete successful: '' @
                                      py_str (py_get result_info ''deleted_count'') @
                                      '' document(s) deleted''
                                    else ''Delete operation was not acknowledged by database'')
                                   (w\<lparr>collection := c''\<rparr>)))))
         | _ \<Rightarrow> (Inl (OtherError ''Delete operation failed: 'query' parameter must be a dictionary''), w)))"

section \<open>A shelter with two records\<close>

text \<open>
  A concrete state, used to run the operations: a primary collection holding two
  records, an empty audit collection, acknowledged writes, no fault, and the equality
  fragment as the meaning of filters.
\<close>

definition rec_a1 :: dict where
  "rec_a1 = [(''_id'', VId 0), (''animal_id'', VStr ''A1''), (''animal_type'', VStr ''Dog''),
             (''breed'', VStr ''Lab''), (''created_timestamp'', VTime 50)]"

definition rec_a2 :: dict where
  "rec_a2 = [(''_id'', VId 1), (''animal_id'', VStr ''A2''), (''animal_type'', VStr ''Cat''),
             (''breed'', VStr ''Siamese''), (''created_timestamp'', VTime 60)]"

definition shelter_coll :: collection where
  "shelter_coll = \<lparr>docs = [rec_a1, rec_a2], next_id = 2, acknowledged = True, fault = None,
                    matcher = eq_fields, seed = (\<lambda>q. q), calls = []\<rparr>"

definition audit_coll :: collection where
  "audit_coll = \<lparr>docs = [], next_id = 0, acknowledged = True, fault = None,
                  matcher = eq_fields, seed = (\<lambda>q. q), calls = []\<rparr>"

definition shelter_world :: world where
  "shelter_world = \<lparr>heap = (\<lambda>a. []), collection = shelter_coll, audits = audit_coll,
                     clock = (\<lambda>n. 100 + n), ticks = 0, logged = [], printed = []\<rparr>"

definition with_fault :: "exn option \<Rightarrow> collection \<Rightarrow> collection" where
  "with_fault f c = c\<lparr>fault := f\<rparr>"

definition failing_audits :: "exn \<Rightarrow> world \<Rightarrow> world" where
  \<comment> \<open>the same state, with an audit collection whose every call raises \<open>e\<close>\<close>
  "failing_audits e w = w\<lparr>audits := with_fault (Some e) (audits w)\<rparr>"

definition rec_a3 :: dict where
  \<comment> \<open>a new record, whose caller supplies a \<open>created_timestamp\<close> of their own\<close>
  "rec_a3 = [(''animal_id'', VStr ''A3''), (''animal_type'', VStr ''Dog''), (''breed'', VStr ''Pug''),
             (''created_timestamp'', VStr ''yesterday'')]"

definition intake_world :: world where
  \<comment> \<open>the shelter, with the new record in the caller's \<open>dict\<close> at address 0\<close>
  "intake_world = store 0 rec_a3 shelter_world"

definition rename_world :: world where
  \<comment> \<open>the shelter, with a filter at address 0 and new values at address 1\<close>
  "rename_world = store 1 [(''breed'', VStr ''Labrador'')] (store 0 [(''animal_id'', VStr ''A1'')] shelter_world)"

definition dog_world :: world where
  \<comment> \<open>the shelter, with the filter \<open>{"animal_type": "Dog"}\<close> at address 0\<close>
  "dog_world = store 0 [(''animal_type'', VStr ''Dog'')] shelter_world"

definition empty_shelter :: world where
  \<comment> \<open>the shelter with no record stored\<close>
  "empty_shelter = shelter_world\<lparr>collection := shelter_coll\<lparr>docs := [], next_id := 0\<rparr>\<rparr>"

definition upsert_world :: world where
  \<comment> \<open>the empty shelter, with a filter at address 0 and new values at address 1\<close>
  "upsert_world = store 1 [(''breed'', VStr ''Pug'')] (store 0 [(''animal_id'', VStr ''A9'')] empty_shelter)"

section \<open>Basic facts\<close>

lemma log_msg_fields [simp]:
  "heap (log_msg l m w) = heap w"
  "collection (log_msg l m w) = collection w"
  "audits (log_msg l m w) = audits w"
  "clock (log_msg l m w) = clock w"
  "ticks (log_msg l m w) = ticks w"
  "logged (log_msg l m w) = logged w @ [(l, m)]"
  by (simp_all add: log_msg_def)

lemma on_error_fst [simp]: "fst (on_error p tag rw) = fst rw"
  by (cases rw; cases "fst rw") (auto simp: on_error_def)

lemma on_error_snd_fields [simp]:
  "heap (snd (on_error p tag rw)) = heap (snd rw)"
  "collection (snd (on_error p tag rw)) = collection (snd rw)"
  "audits (snd (on_error p tag rw)) = audits (snd rw)"
  "clock (snd (on_error p tag rw)) = clock (snd rw)"
  "ticks (snd (on_error p tag rw)) = ticks (snd rw)"
  by (cases rw; cases "fst rw"; auto simp: on_error_def)+

section \<open>The guard of delete\<close>

lemma delete_body_empty:
  "heap w a = [] \<Longrightarrow>
     delete_body (PDict a) actor cd w = (Inl (ValueError ''query must be a non-empty dict''), w)"
  by (simp add: delete_body_def require_dict_def)

text \<open>
  C1. \<open>delete(q)\<close> with \<open>q\<close> an empty mapping and \<open>confirm_delete\<close> left at its
  default \<open>True\<close> fails with a \<open>ValueError\<close>, and nothing changes: the primary
  collection (its documents and the calls it has received), the audit collection and
  the caller's objects are as before.
\<close>

theorem delete_empty_default_rejected:
  assumes "heap w a = []"
  shows "fst (delete (PDict a) actor True w) = Inl (ValueError ''query must be a non-empty dict'') \<and>
         collection (snd (delete (PDict a) actor True w)) = collection w \<and>
         audits (snd (delete (PDict a) actor True w)) = audits w \<and>
         heap (snd (delete (PDict a) actor True w)) = heap w"
proof -
  have "require_dict (heap w) (PDict a) ''query'' False =
          Inl (ValueError ''query must be a non-empty dict'')"
    using assms by (simp add: require_dict_def)
  then have "delete_body (PDict a) actor True w =
          (Inl (ValueError ''query must be a non-empty dict''), w)"
    by (simp add: delete_body_def)
  then show ?thesis
    by (simp add: delete_def)
qed

theorem delete_empty_default_rejected_witness:
  "heap shelter_world 0 = [] \<and>
   fst (delete (PDict 0) None True shelter_world) = Inl (ValueError ''query must be a non-empty dict'') \<and>
   docs (collection (snd (delete (PDict 0) None True shelter_world))) = [rec_a1, rec_a2] \<and>
   calls (collection (snd (delete (PDict 0) None True shelter_world))) = []"
  using delete_empty_default_rejected [of shelter_world 0 None]
  by (simp add: shelter_world_def shelter_coll_def)

text \<open>
  C2. \<open>delete({}, confirm_delete=False)\<close> is documented to delete every record.
  It does not: \<open>_require_dict\<close> is called without \<open>allow_empty\<close>, so the empty filter
  is refused before the guard on \<open>confirm_delete\<close> is reached, and no record is
  deleted.
\<close>

theorem delete_empty_override_rejected:
  assumes "heap w a = []"
  shows "fst (delete (PDict a) actor False w) = Inl (ValueError ''query must be a non-empty dict'') \<and>
         docs (collection (snd (delete (PDict a) actor False w))) = docs (collection w) \<and>
         calls (collection (snd (delete (PDict a) actor False w))) = calls (collection w)"
proof -
  from assms have "delete_body (PDict a) actor False w =
          (Inl (ValueError ''query must be a non-empty dict''), w)"
    by (rule delete_body_empty)
  then show ?thesis
    by (simp add: delete_def)
qed

theorem delete_empty_override_rejected_witness:
  "heap shelter_world 0 = [] \<and> length (docs (collection shelter_world)) = 2 \<and>
   fst (delete (PDict 0) None False shelter_world) = Inl (ValueError ''query must be a non-empty dict'') \<and>
   docs (collection (snd (delete (PDict 0) None False shelter_world))) = [rec_a1, rec_a2]"
  using delete_empty_override_rejected [of shelter_world 0 None]
  by (simp add: shelter_world_def shelter_coll_def)

section \<open>Validation in create\<close>

lemma py_join_contains:
  "f \<in> set xs \<Longrightarrow> \<exists>p s. py_join sep xs = p @ f @ s"
proof (induction sep xs rule: py_join.induct)
  case (1 sep)
  then show ?case by simp
next
  case (2 sep x)
  then have "py_join sep [x] = [] @ f @ []" by simp
  then show ?case by blast
next
  case (3 sep x y ys)
  show ?case
  proof (cases "f = x")
    case True
    then have "py_join sep (x # y # ys) = [] @ f @ (sep @ py_join sep (y # ys))" by simp
    then show ?thesis by blast
  next
    case False
    with 3 obtain p s where "py_join sep (y # ys) = p @ f @ s" by auto
    then have "py_join sep (x # y # ys) = (x @ sep @ p) @ f @ s" by simp
    then show ?thesis by blast
  qed
qed

lemma create_body_missing:
  assumes "heap w a \<noteq> []"
    and "filter (\<lambda>f. \<not> has_key (heap w a) f) [''animal_id'', ''animal_type'', ''breed''] \<noteq> []"
  shows "create_body (PDict a) actor w =
           (Inl (ValueError (''missing required field(s): '' @
              py_join '', '' (filter (\<lambda>f. \<not> has_key (heap w a) f)
                                [''animal_id'', ''animal_type'', ''breed'']))), w)"
  using assms
  by (simp add: create_body_def require_dict_def validate_required_fields_def Let_def)

text \<open>
  C3. For a non-empty mapping that lacks at least one of \<open>animal_id\<close>,
  \<open>animal_type\<close>, \<open>breed\<close>, \<open>create\<close> fails with a \<open>ValueError\<close> whose message
  is \<open>missing required field(s): \<close> followed by the missing fields, each of which
  occurs in it; the primary collection receives no call and keeps its documents, and
  the audit collection and the caller's mapping are unchanged.
\<close>

theorem create_missing_required_rejected:
  assumes "heap w a \<noteq> []"
    and "\<not> (has_key (heap w a) ''animal_id'' \<and> has_key (heap w a) ''animal_type'' \<and>
             has_key (heap w a) ''breed'')"
    and "missing = filter (\<lambda>f. \<not> has_key (heap w a) f) [''animal_id'', ''animal_type'', ''breed'']"
  shows "fst (create (PDict a) actor w) =
           Inl (ValueError (''missing required field(s): '' @ py_join '', '' missing)) \<and>
         missing \<noteq> [] \<and>
         (\<forall>f \<in> set missing. \<exists>p s. py_join '', '' missing = p @ f @ s) \<and>
         collection (snd (create (PDict a) actor w)) = collection w \<and>
         audits (snd (create (PDict a) actor w)) = audits w \<and>
         heap (snd (create (PDict a) actor w)) = heap w"
proof -
  from assms(2,3) have ne: "missing \<noteq> []" by auto
  with assms(1,3) have body: "create_body (PDict a) actor w =
      (Inl (ValueError (''missing required field(s): '' @ py_join '', '' missing)), w)"
    using create_body_missing by simp
  have names: "\<forall>f \<in> set missing. \<exists>p s. py_join '', '' missing = p @ f @ s"
    using py_join_contains by blast
  from body ne names show ?thesis by (simp add: create_def)
qed

theorem create_missing_required_rejected_witness:
  "heap (store 0 [(''animal_id'', VStr ''A3'')] shelter_world) 0 \<noteq> [] \<and>
   \<not> has_key (heap (store 0 [(''animal_id'', VStr ''A3'')] shelter_world) 0) ''breed'' \<and>
   fst (create (PDict 0) None (store 0 [(''animal_id'', VStr ''A3'')] shelter_world)) =
     Inl (ValueError ''missing required field(s): animal_type, breed'') \<and>
   docs (collection (snd (create (PDict 0) None (store 0 [(''animal_id'', VStr ''A3'')] shelter_world)))) =
     [rec_a1, rec_a2] \<and>
   calls (collection (snd (create (PDict 0) None (store 0 [(''animal_id'', VStr ''A3'')] shelter_world)))) = []"
  using create_missing_required_rejected
    [of "store 0 [(''animal_id'', VStr ''A3'')] shelter_world" 0 "[''animal_type'', ''breed'']" None]
  by (simp add: store_def shelter_world_def shelter_coll_def has_key_def)

section \<open>The audit trail is best effort\<close>

lemma utcnow_fields [simp]:
  "fst (utcnow w) = clock w (ticks w)"
  "heap (snd (utcnow w)) = heap w"
  "collection (snd (utcnow w)) = collection w"
  "audits (snd (utcnow w)) = audits w"
  "clock (snd (utcnow w)) = clock w"
  "ticks (snd (utcnow w)) = Suc (ticks w)"
  "logged (snd (utcnow w)) = logged w"
  by (simp_all add: utcnow_def)

lemma store_fields [simp]:
  "heap (store a d w) = (heap w)(a := d)"
  "collection (store a d w) = collection w"
  "audits (store a d w) = audits w"
  "clock (store a d w) = clock w"
  "ticks (store a d w) = ticks w"
  "logged (store a d w) = logged w"
  by (simp_all add: store_def)

lemma audit_fields [simp]:
  "heap (audit action details w) = heap w"
  "collection (audit action details w) = collection w"
  "clock (audit action details w) = clock w"
  "ticks (audit action details w) = Suc (ticks w)"
  by (simp_all add: audit_def utcnow_def Let_def split: prod.splits sum.splits)

lemma audit_logged_fault:
  "fault (audits w) = Some e \<Longrightarrow>
     logged (audit action details w) =
       logged w @ [(WARNING, ''audit_failed action='' @ action @ '' error='' @ str_exn e)]"
  by (simp add: audit_def utcnow_def insert_one_def with_id_def recorded_def Let_def
           split: prod.splits)

lemma utcnow_audits_update:
  "utcnow (w\<lparr>audits := A\<rparr>) = (fst (utcnow w), (snd (utcnow w))\<lparr>audits := A\<rparr>)"
  by (simp add: utcnow_def)

lemma store_audits_update:
  "store a d (w\<lparr>audits := A\<rparr>) = (store a d w)\<lparr>audits := A\<rparr>"
  by (simp add: store_def)

lemma create_body_audits:
  "fst (create_body data actor (w\<lparr>audits := A\<rparr>)) = fst (create_body data actor w) \<and>
   collection (snd (create_body data actor (w\<lparr>audits := A\<rparr>))) =
     collection (snd (create_body data actor w)) \<and>
   heap (snd (create_body data actor (w\<lparr>audits := A\<rparr>))) = heap (snd (create_body data actor w))"
  by (simp add: create_body_def Let_def utcnow_def store_def split: sum.splits prod.splits)

lemma update_body_audits:
  "fst (update_body q nv upsert actor (w\<lparr>audits := A\<rparr>)) = fst (update_body q nv upsert actor w) \<and>
   collection (snd (update_body q nv upsert actor (w\<lparr>audits := A\<rparr>))) =
     collection (snd (update_body q nv upsert actor w)) \<and>
   heap (snd (update_body q nv upsert actor (w\<lparr>audits := A\<rparr>))) =
     heap (snd (update_body q nv upsert actor w))"
  by (simp add: update_body_def Let_def utcnow_def store_def split: sum.splits prod.splits)

lemma delete_body_audits:
  "fst (delete_body q actor cd (w\<lparr>audits := A\<rparr>)) = fst (delete_body q actor cd w) \<and>
   collection (snd (delete_body q actor cd (w\<lparr>audits := A\<rparr>))) =
     collection (snd (delete_body q actor cd w)) \<and>
   heap (snd (delete_body q actor cd (w\<lparr>audits := A\<rparr>))) = heap (snd (delete_body q actor cd w))"
  by (simp add: delete_body_def Let_def split: sum.splits prod.splits)


lemma on_error_Inr: "fst rw = Inr x \<Longrightarrow> on_error p tag rw = rw"
  by (cases rw) (auto simp: on_error_def)

lemma create_logs_audit_failure:
  assumes "fault (audits w) = Some e" and "fst (create data actor w) = Inr out"
  shows "logged (snd (create data actor w)) =
           logged w @ [(WARNING, ''audit_failed action=CREATE error='' @ str_exn e)]"
proof -
  from assms(2) have b: "fst (create_body data actor w) = Inr out" by (simp add: create_def)
  then have "create data actor w = create_body data actor w"
    by (simp add: create_def on_error_Inr)
  moreover from b assms(1) have "logged (snd (create_body data actor w)) =
      logged w @ [(WARNING, ''audit_failed action=CREATE error='' @ str_exn e)]"
    by (auto simp: create_body_def Let_def utcnow_def audit_logged_fault split: sum.splits prod.splits)
  ultimately show ?thesis by simp
qed

lemma update_logs_audit_failure:
  assumes "fault (audits w) = Some e" and "fst (update q nv upsert actor w) = Inr out"
  shows "logged (snd (update q nv upsert actor w)) =
           logged w @ [(WARNING, ''audit_failed action=UPDATE error='' @ str_exn e)]"
proof -
  from assms(2) have b: "fst (update_body q nv upsert actor w) = Inr out" by (simp add: update_def)
  then have "update q nv upsert actor w = update_body q nv upsert actor w"
    by (simp add: update_def on_error_Inr)
  moreover from b assms(1) have "logged (snd (update_body q nv upsert actor w)) =
      logged w @ [(WARNING, ''audit_failed action=UPDATE error='' @ str_exn e)]"
    by (auto simp: update_body_def Let_def utcnow_def audit_logged_fault split: sum.splits prod.splits)
  ultimately show ?thesis by simp
qed

lemma delete_logs_audit_failure:
  assumes "fault (audits w) = Some e" and "fst (delete q actor cd w) = Inr out"
  shows "logged (snd (delete q actor cd w)) =
           logged w @ [(WARNING, ''audit_failed action=DELETE error='' @ str_exn e)]"
proof -
  from assms(2) have b: "fst (delete_body q actor cd w) = Inr out" by (simp add: delete_def)
  then have "delete q actor cd w = delete_body q actor cd w"
    by (simp add: delete_def on_error_Inr)
  moreover from b assms(1) have "logged (snd (delete_body q actor cd w)) =
      logged w @ [(WARNING, ''audit_failed action=DELETE error='' @ str_exn e)]"
    by (auto simp: delete_body_def Let_def audit_logged_fault split: sum.splits prod.splits if_splits)
  ultimately show ?thesis by simp
qed

text \<open>
  C7. For \<open>create\<close>, \<open>update\<close> and \<open>delete\<close>: when the audit collection
  raises (any exception \<open>e\<close>), the operation returns what it returns with any other
  audit collection, in particular one whose write succeeds; the primary collection and
  the caller's objects end in the same state, so the primary write is not rolled back;
  and when the operation returns normally the failure has been logged as a warning and
  was not raised.
\<close>

theorem audit_failure_is_contained:
  "(fst (create data actor (failing_audits e w)) = fst (create data actor w) \<and>
    collection (snd (create data actor (failing_audits e w))) = collection (snd (create data actor w)) \<and>
    heap (snd (create data actor (failing_audits e w))) = heap (snd (create data actor w)) \<and>
    (\<forall>out. fst (create data actor w) = Inr out \<longrightarrow>
       logged (snd (create data actor (failing_audits e w))) =
         logged w @ [(WARNING, ''audit_failed action=CREATE error='' @ str_exn e)])) \<and>
   (fst (update q nv upsert actor (failing_audits e w)) = fst (update q nv upsert actor w) \<and>
    collection (snd (update q nv upsert actor (failing_audits e w))) =
      collection (snd (update q nv upsert actor w)) \<and>
    heap (snd (update q nv upsert actor (failing_audits e w))) = heap (snd (update q nv upsert actor w)) \<and>
    (\<forall>out. fst (update q nv upsert actor w) = Inr out \<longrightarrow>
       logged (snd (update q nv upsert actor (failing_audits e w))) =
         logged w @ [(WARNING, ''audit_failed action=UPDATE error='' @ str_exn e)])) \<and>
   (fst (delete q actor cd (failing_audits e w)) = fst (delete q actor cd w) \<and>
    collection (snd (delete q actor cd (failing_audits e w))) = collection (snd (delete q actor cd w)) \<and>
    heap (snd (delete q actor cd (failing_audits e w))) = heap (snd (delete q actor cd w)) \<and>
    (\<forall>out. fst (delete q actor cd w) = Inr out \<longrightarrow>
       logged (snd (delete q actor cd (failing_audits e w))) =
         logged w @ [(WARNING, ''audit_failed action=DELETE error='' @ str_exn e)]))"
proof -
  have f: "fault (audits (failing_audits e w)) = Some e" "logged (failing_audits e w) = logged w"
    by (simp_all add: failing_audits_def with_fault_def)
  have c: "fst (create data actor (failing_audits e w)) = fst (create data actor w)"
    "collection (snd (create data actor (failing_audits e w))) = collection (snd (create data actor w))"
    "heap (snd (create data actor (failing_audits e w))) = heap (snd (create data actor w))"
    by (simp_all add: create_def failing_audits_def create_body_audits)
  have u: "fst (update q nv upsert actor (failing_audits e w)) = fst (update q nv upsert actor w)"
    "collection (snd (update q nv upsert actor (failing_audits e w))) =
       collection (snd (update q nv upsert actor w))"
    "heap (snd (update q nv upsert actor (failing_audits e w))) = heap (snd (update q nv upsert actor w))"
    by (simp_all add: update_def failing_audits_def update_body_audits)
  have d: "fst (delete q actor cd (failing_audits e w)) = fst (delete q actor cd w)"
    "collection (snd (delete q actor cd (failing_audits e w))) = collection (snd (delete q actor cd w))"
    "heap (snd (delete q actor cd (failing_audits e w))) = heap (snd (delete q actor cd w))"
    by (simp_all add: delete_def failing_audits_def delete_body_audits)
  have cl: "\<forall>out. fst (create data actor w) = Inr out \<longrightarrow>
       logged (snd (create data actor (failing_audits e w))) =
         logged w @ [(WARNING, ''audit_failed action=CREATE error='' @ str_exn e)]"
    using create_logs_audit_failure [OF f(1)] c(1) f(2) by simp
  have ul: "\<forall>out. fst (update q nv upsert actor w) = Inr out \<longrightarrow>
       logged (snd (update q nv upsert actor (failing_audits e w))) =
         logged w @ [(WARNING, ''audit_failed action=UPDATE error='' @ str_exn e)]"
    using update_logs_audit_failure [OF f(1)] u(1) f(2) by simp
  have dl: "\<forall>out. fst (delete q actor cd w) = Inr out \<longrightarrow>
       logged (snd (delete q actor cd (failing_audits e w))) =
         logged w @ [(WARNING, ''audit_failed action=DELETE error='' @ str_exn e)]"
    using delete_logs_audit_failure [OF f(1)] d(1) f(2) by simp
  from c u d cl ul dl show ?thesis by blast
qed

theorem audit_failure_is_contained_witness:
  "fst (create (PDict 0) None (failing_audits (OtherError ''audit store down'') intake_world)) =
     Inr [(''ok'', VBool True), (''inserted_id'', VStr ''000000000000000000000002'')] \<and>
   logged (snd (create (PDict 0) None (failing_audits (OtherError ''audit store down'') intake_world))) =
     [(WARNING, ''audit_failed action=CREATE error=audit store down'')] \<and>
   length (docs (collection (snd (create (PDict 0) None
       (failing_audits (OtherError ''audit store down'') intake_world))))) = 3"
proof -
  have r: "fst (create (PDict 0) None intake_world) =
     Inr [(''ok'', VBool True), (''inserted_id'', VStr ''000000000000000000000002'')]"
    by code_simp
  have n: "length (docs (collection (snd (create (PDict 0) None intake_world)))) = 3"
    by code_simp
  have l: "logged intake_world = []"
    by code_simp
  from r n l audit_failure_is_contained [of "PDict 0" None "OtherError ''audit store down''" intake_world]
  show ?thesis by simp
qed

section \<open>The caller's mappings are changed in place\<close>

lemma setitem_lookup [simp]:
  "map_of (setitem d k v) k' = (if k' = k then Some v else map_of d k')"
  by (simp add: setitem_def update_conv')

lemma with_id_lookup:
  "k \<noteq> ''_id'' \<Longrightarrow> map_of (fst (with_id d c)) k = map_of d k"
  by (simp add: with_id_def)

lemma insert_one_document:
  "fst (snd (insert_one d c)) = fst (with_id d c)"
  by (simp add: insert_one_def Let_def split: prod.splits option.splits)

lemma create_body_heap:
  assumes "fst (create_body (PDict a) actor w) = Inr out"
  shows "heap (snd (create_body (PDict a) actor w)) =
           (heap w)(a := fst (with_id (setitem (heap w a) ''created_timestamp'' (VTime (clock w (ticks w))))
                                (collection w)))"
proof -
  define d where "d = setitem (heap w a) ''created_timestamp'' (VTime (clock w (ticks w)))"
  obtain r d' c' where io: "insert_one d (collection w) = (r, d', c')"
    by (cases "insert_one d (collection w)")
  with insert_one_document [of d "collection w"] have d': "d' = fst (with_id d (collection w))"
    by simp
  from assms io show ?thesis
    unfolding d' [symmetric] d_def [symmetric]
    by (simp add: create_body_def Let_def utcnow_def require_dict_def d_def [symmetric]
             split: sum.splits if_splits)
qed

lemma update_body_heap:
  assumes "fst (update_body (PDict q) (PDict nv) upsert actor w) = Inr out"
  shows "heap (snd (update_body (PDict q) (PDict nv) upsert actor w)) =
           (heap w)(nv := setitem (heap w nv) ''last_modified_timestamp'' (VTime (clock w (ticks w))))"
  using assms
  by (auto simp: update_body_def Let_def utcnow_def require_dict_def
           split: sum.splits prod.splits if_splits)

text \<open>
  C9. \<open>create\<close> and \<open>update\<close> write into the \<open>dict\<close> objects they are given.
  After a successful \<open>create(data)\<close> the caller's \<open>data\<close> has the key
  \<open>created_timestamp\<close>, holding the instant read from the clock; after a successful
  \<open>update(q, nv)\<close> the caller's \<open>nv\<close> is its former contents with
  \<open>last_modified_timestamp\<close> set to the instant read from the clock. No other
  object of the caller changes.
\<close>

theorem create_update_stamp_callers_mapping:
  "(fst (create (PDict a) actor w) = Inr out \<longrightarrow>
      has_key (heap (snd (create (PDict a) actor w)) a) ''created_timestamp'' \<and>
      py_get (heap (snd (create (PDict a) actor w)) a) ''created_timestamp'' =
        VTime (clock w (ticks w)) \<and>
      (\<forall>b. b \<noteq> a \<longrightarrow> heap (snd (create (PDict a) actor w)) b = heap w b)) \<and>
   (fst (update (PDict q) (PDict nv) upsert actor w) = Inr out' \<longrightarrow>
      has_key (heap (snd (update (PDict q) (PDict nv) upsert actor w)) nv) ''last_modified_timestamp'' \<and>
      heap (snd (update (PDict q) (PDict nv) upsert actor w)) nv =
        setitem (heap w nv) ''last_modified_timestamp'' (VTime (clock w (ticks w))) \<and>
      (\<forall>b. b \<noteq> nv \<longrightarrow> heap (snd (update (PDict q) (PDict nv) upsert actor w)) b = heap w b))"
proof (intro conjI impI)
  assume "fst (create (PDict a) actor w) = Inr out"
  then have b: "fst (create_body (PDict a) actor w) = Inr out" by (simp add: create_def)
  have h: "heap (snd (create (PDict a) actor w)) = heap (snd (create_body (PDict a) actor w))"
    by (simp add: create_def)
  note hh = h [unfolded create_body_heap [OF b]]
  show "has_key (heap (snd (create (PDict a) actor w)) a) ''created_timestamp''"
    by (simp add: hh has_key_def with_id_lookup)
  show "py_get (heap (snd (create (PDict a) actor w)) a) ''created_timestamp'' = VTime (clock w (ticks w))"
    by (simp add: hh py_get_def with_id_lookup)
  show "\<forall>b. b \<noteq> a \<longrightarrow> heap (snd (create (PDict a) actor w)) b = heap w b"
    by (simp add: hh)
next
  assume "fst (update (PDict q) (PDict nv) upsert actor w) = Inr out'"
  then have b: "fst (update_body (PDict q) (PDict nv) upsert actor w) = Inr out'" by (simp add: update_def)
  have h: "heap (snd (update (PDict q) (PDict nv) upsert actor w)) =
           heap (snd (update_body (PDict q) (PDict nv) upsert actor w))"
    by (simp add: update_def)
  note hh = h [unfolded update_body_heap [OF b]]
  show "has_key (heap (snd (update (PDict q) (PDict nv) upsert actor w)) nv) ''last_modified_timestamp''"
    by (simp add: hh has_key_def)
  show "heap (snd (update (PDict q) (PDict nv) upsert actor w)) nv =
        setitem (heap w nv) ''last_modified_timestamp'' (VTime (clock w (ticks w)))"
    by (simp add: hh)
  show "\<forall>b. b \<noteq> nv \<longrightarrow> heap (snd (update (PDict q) (PDict nv) upsert actor w)) b = heap w b"
    by (simp add: hh)
qed

theorem create_update_stamp_callers_mapping_witness:
  "fst (create (PDict 0) None intake_world) =
     Inr [(''ok'', VBool True), (''inserted_id'', VStr ''000000000000000000000002'')] \<and>
   heap intake_world 0 = rec_a3 \<and>
   py_get (heap (snd (create (PDict 0) None intake_world)) 0) ''created_timestamp'' = VTime 100 \<and>
   fst (update (PDict 0) (PDict 1) False None rename_world) =
     Inr [(''ok'', VBool True), (''matched'', VInt 1), (''modified'', VInt 1), (''upserted_id'', VNone)] \<and>
   heap rename_world 1 = [(''breed'', VStr ''Labrador'')] \<and>
   heap (snd (update (PDict 0) (PDict 1) False None rename_world)) 1 =
     [(''breed'', VStr ''Labrador''), (''last_modified_timestamp'', VTime 100)]"
proof -
  have c: "fst (create (PDict 0) None intake_world) =
     Inr [(''ok'', VBool True), (''inserted_id'', VStr ''000000000000000000000002'')]"
    by code_simp
  have u: "fst (update (PDict 0) (PDict 1) False None rename_world) =
     Inr [(''ok'', VBool True), (''matched'', VInt 1), (''modified'', VInt 1), (''upserted_id'', VNone)]"
    by code_simp
  have k: "clock intake_world (ticks intake_world) = 100" "clock rename_world (ticks rename_world) = 100"
    "heap intake_world 0 = rec_a3" "heap rename_world 1 = [(''breed'', VStr ''Labrador'')]"
    by code_simp+
  have s: "setitem [(''breed'', VStr ''Labrador'')] ''last_modified_timestamp'' (VTime 100) =
      [(''breed'', VStr ''Labrador''), (''last_modified_timestamp'', VTime 100)]"
    by code_simp
  from create_update_stamp_callers_mapping
    [where a = 0 and actor = None and w = intake_world
       and out = "[(''ok'', VBool True), (''inserted_id'', VStr ''000000000000000000000002'')]"]
    create_update_stamp_callers_mapping
    [where q = 0 and nv = 1 and upsert = False and actor = None and w = rename_world
       and out' = "[(''ok'', VBool True), (''matched'', VInt 1), (''modified'', VInt 1),
                    (''upserted_id'', VNone)]"]
  have "py_get (heap (snd (create (PDict 0) None intake_world)) 0) ''created_timestamp'' = VTime 100"
    and "heap (snd (update (PDict 0) (PDict 1) False None rename_world)) 1 =
     [(''breed'', VStr ''Labrador''), (''last_modified_timestamp'', VTime 100)]"
    using c u k s by simp_all
  with c u k show ?thesis by simp
qed

section \<open>read\<close>

lemma read_cursor_non_dict:
  "\<forall>p. projection \<noteq> PDict p \<Longrightarrow>
     read_cursor h q projection limit sort_field sort_order =
     read_cursor h q PNone limit sort_field sort_order"
  by (cases projection) (simp_all add: read_cursor_def)

lemma read_body_non_dict_projection:
  "\<forall>p. projection \<noteq> PDict p \<Longrightarrow>
     read_body query projection limit sort_field sort_order w =
     read_body query PNone limit sort_field sort_order w"
  using read_cursor_non_dict [of projection] by (simp add: read_body_def cong: sum.case_cong)

lemma recorded_fields [simp]:
  "docs (recorded x c) = docs c"
  "next_id (recorded x c) = next_id c"
  "acknowledged (recorded x c) = acknowledged c"
  "fault (recorded x c) = fault c"
  "matcher (recorded x c) = matcher c"
  "seed (recorded x c) = seed c"
  "calls (recorded x c) = calls c @ [x]"
  by (simp_all add: recorded_def)

lemma matches_recorded [simp]: "matches (recorded x c) = matches c"
  by (simp add: matches_def fun_eq_iff)

lemma selected_recorded [simp]: "selected cur (recorded x c) = selected cur c"
  by (simp add: selected_def)

lemma set_sort_docs [simp]: "set (sort_docs s ds) = set ds"
  by (simp add: sort_docs_def split: option.splits prod.splits)

lemma mset_sort_docs [simp]: "mset (sort_docs s ds) = mset ds"
  by (simp add: sort_docs_def split: option.splits prod.splits)

lemma set_limit_docs: "set (limit_docs n ds) \<subseteq> set ds"
  by (auto simp: limit_docs_def dest: in_set_takeD)

lemma length_limit_docs: "0 < n \<Longrightarrow> length (limit_docs n ds) \<le> n"
  by (simp add: limit_docs_def)

lemma limit_docs_0 [simp]: "limit_docs 0 ds = ds"
  by (simp add: limit_docs_def)

lemma list_cursor_Inr:
  "fst (list_cursor cur c) = Inr rs \<Longrightarrow> rs = map (project_doc (c_projection cur)) (selected cur c)"
  by (auto simp: list_cursor_def Let_def split: option.splits if_splits)

lemma list_cursor_ok:
  "fault c = None \<Longrightarrow> \<not> bad_sort (c_sort cur) \<Longrightarrow> \<not> bad_projection (c_projection cur) \<Longrightarrow>
     fst (list_cursor cur c) = Inr (map (project_doc (c_projection cur)) (selected cur c))"
  by (simp add: list_cursor_def Let_def)

lemma read_cursor_filter:
  "c_filter (read_cursor h q projection limit sort_field sort_order) = q"
  by (cases projection; cases sort_field)
     (simp_all add: read_cursor_def find_coll_def cursor_sort_def cursor_limit_def Let_def)

lemma read_cursor_projection:
  "c_projection (read_cursor (heap w) q projection limit sort_field sort_order) = read_projection w projection"
  by (cases projection; cases sort_field)
     (simp_all add: read_cursor_def read_projection_def find_coll_def cursor_sort_def cursor_limit_def Let_def)

lemma read_cursor_sort:
  "c_sort (read_cursor h q projection limit sort_field sort_order) = read_sort sort_field sort_order"
  by (cases projection; cases sort_field)
     (simp_all add: read_cursor_def read_sort_def find_coll_def cursor_sort_def cursor_limit_def Let_def)

lemma read_cursor_limit:
  "c_limit (read_cursor h q projection limit sort_field sort_order) = (if 0 < limit then nat limit else 0)"
  by (cases projection; cases sort_field)
     (simp_all add: read_cursor_def find_coll_def cursor_sort_def cursor_limit_def Let_def)

lemma read_body_bad_query:
  assumes "\<not> (query = PNone \<or> (\<exists>a. query = PDict a))"
  shows "read_body query projection limit sort_field sort_order w = (Inl (ValueError ''query must be a dict''), w)"
  using assms by (cases query) (auto simp: read_body_def require_dict_def)

lemma read_body_query:
  assumes "query = PNone \<or> (\<exists>a. query = PDict a)"
  shows "fst (read_body query projection limit sort_field sort_order w) =
           fst (list_cursor (read_cursor (heap w) (read_filter w query) projection limit sort_field sort_order)
                  (collection w))"
proof -
  have q: "(if query = PNone then Inr []
            else map_sum id (heap w) (require_dict (heap w) query ''query'' True)) =
           Inr (read_filter w query)"
    using assms by (auto simp: require_dict_def read_filter_def)
  show ?thesis
    unfolding read_body_def q by (simp split: prod.splits sum.splits)
qed



lemma read_Inr_query:
  assumes "fst (read query projection limit sort_field sort_order w) = Inr rs"
  shows "query = PNone \<or> (\<exists>a. query = PDict a)"
proof (rule ccontr)
  assume "\<not> ?thesis"
  from read_body_bad_query [OF this] assms show False by (simp add: read_def)
qed

lemma read_Inr_selected:
  assumes "fst (read query projection limit sort_field sort_order w) = Inr rs"
  shows "rs = map (project_doc (read_projection w projection))
                (selected (read_cursor (heap w) (read_filter w query) projection limit sort_field sort_order)
                   (collection w))"
proof -
  from assms have "fst (list_cursor
      (read_cursor (heap w) (read_filter w query) projection limit sort_field sort_order) (collection w)) = Inr rs"
    using read_body_query [OF read_Inr_query [OF assms]] by (simp add: read_def)
  from list_cursor_Inr [OF this] show ?thesis by (simp add: read_cursor_projection)
qed

lemma read_ok:
  assumes "query = PNone \<or> (\<exists>a. query = PDict a)" and "fault (collection w) = None"
    and "\<not> bad_sort (read_sort sort_field sort_order)"
    and "\<not> bad_projection (read_projection w projection)"
  shows "fst (read query projection limit sort_field sort_order w) =
           Inr (map (project_doc (read_projection w projection))
                  (selected (read_cursor (heap w) (read_filter w query) projection limit sort_field sort_order)
                     (collection w)))"
  using assms list_cursor_ok
    [of "collection w" "read_cursor (heap w) (read_filter w query) projection limit sort_field sort_order"]
  by (simp add: read_def read_body_query read_cursor_sort read_cursor_projection)

lemma selected_read_cursor:
  "selected (read_cursor h q projection limit sort_field sort_order) c =
     limit_docs (if 0 < limit then nat limit else 0)
       (sort_docs (read_sort sort_field sort_order) (filter (matches c q) (docs c)))"
  by (simp add: selected_def read_cursor_filter read_cursor_sort read_cursor_limit)

lemma project_doc_None [simp]: "map (project_doc None) ds = ds"
  by (induction ds) (simp_all add: project_doc_def)

lemma matches_empty [simp]: "matches c [] d"
  by (simp add: matches_def)

text \<open>
  C10. \<open>read\<close> validates only \<open>query\<close>. A \<open>projection\<close> that is not a \<open>dict\<close>
  (a list, a string, ...) changes nothing: the call is the call without a projection,
  in its result and in its effects; what it returns are stored records, whole; and it
  raises nothing on account of the projection, returning a list whenever the query is
  absent or a \<open>dict\<close>, the collection raises nothing and the sort direction is valid.
\<close>

theorem read_ignores_non_dict_projection:
  assumes "\<forall>p. projection \<noteq> PDict p"
  shows "read query projection limit sort_field sort_order w =
           read query PNone limit sort_field sort_order w \<and>
         (\<forall>rs. fst (read query projection limit sort_field sort_order w) = Inr rs \<longrightarrow>
            rs = limit_docs (if 0 < limit then nat limit else 0)
                   (sort_docs (read_sort sort_field sort_order)
                      (filter (matches (collection w) (read_filter w query)) (docs (collection w)))) \<and>
            set rs \<subseteq> set (docs (collection w))) \<and>
         ((query = PNone \<or> (\<exists>a. query = PDict a)) \<and> fault (collection w) = None \<and>
          \<not> bad_sort (read_sort sort_field sort_order) \<longrightarrow>
            (\<exists>rs. fst (read query projection limit sort_field sort_order w) = Inr rs))"
proof (intro conjI allI impI)
  show "read query projection limit sort_field sort_order w = read query PNone limit sort_field sort_order w"
    using read_body_non_dict_projection [OF assms] by (simp add: read_def)
next
  from assms have p: "read_projection w projection = None"
    by (cases projection) (simp_all add: read_projection_def)
  {
    fix rs assume r: "fst (read query projection limit sort_field sort_order w) = Inr rs"
    from read_Inr_selected [OF r] p
    show e: "rs = limit_docs (if 0 < limit then nat limit else 0)
                   (sort_docs (read_sort sort_field sort_order)
                      (filter (matches (collection w) (read_filter w query)) (docs (collection w))))"
      by (simp add: selected_read_cursor)
    have "set rs \<subseteq> set (sort_docs (read_sort sort_field sort_order)
                      (filter (matches (collection w) (read_filter w query)) (docs (collection w))))"
      unfolding e by (rule set_limit_docs)
    then show "set rs \<subseteq> set (docs (collection w))" by auto
  }
  assume "(query = PNone \<or> (\<exists>a. query = PDict a)) \<and> fault (collection w) = None \<and>
          \<not> bad_sort (read_sort sort_field sort_order)"
  with p read_ok [of query w sort_field sort_order projection limit]
  show "\<exists>rs. fst (read query projection limit sort_field sort_order w) = Inr rs"
    by (simp add: bad_projection_def)
qed


theorem read_ignores_non_dict_projection_witness:
  "(\<forall>p. PList [VStr ''breed''] \<noteq> PDict p) \<and>
   read (PDict 0) (PList [VStr ''breed'']) 0 None 1 dog_world = read (PDict 0) PNone 0 None 1 dog_world \<and>
   fst (read (PDict 0) (PList [VStr ''breed'']) 0 None 1 dog_world) = Inr [rec_a1]"
proof -
  have r: "fst (read (PDict 0) PNone 0 None 1 dog_world) = Inr [rec_a1]"
    by code_simp
  from read_ignores_non_dict_projection [of "PList [VStr ''breed'']" "PDict 0" 0 None 1 dog_world] r
  show ?thesis by simp
qed

text \<open>
  C6. \<open>read()\<close> with no arguments returns every stored record, in natural order.
  \<open>read\<close> returns a list whenever the query is absent or a \<open>dict\<close>, the collection
  raises nothing, the sort direction is valid and the projection does not mix inclusion
  and exclusion. Whenever it returns, its result is the projection of a list \<open>sel\<close> of
  stored records that match the filter (and is \<open>sel\<close> itself when no \<open>dict\<close>
  projection is given): with no positive limit \<open>sel\<close> holds exactly the matching
  records (all records for an empty filter; in natural order when no sort is asked),
  and with a limit \<open>n > 0\<close> at most \<open>n\<close> records are returned.
\<close>

theorem read_returns_matching_records:
  "(fault (collection w) = None \<longrightarrow> fst (read PNone PNone 0 None 1 w) = Inr (docs (collection w))) \<and>
   ((query = PNone \<or> (\<exists>a. query = PDict a)) \<and> fault (collection w) = None \<and>
    \<not> bad_sort (read_sort sort_field sort_order) \<and>
    \<not> bad_projection (read_projection w projection) \<longrightarrow>
      (\<exists>rs. fst (read query projection limit sort_field sort_order w) = Inr rs)) \<and>
   (\<forall>rs. fst (read query projection limit sort_field sort_order w) = Inr rs \<longrightarrow>
      (\<exists>sel. rs = map (project_doc (read_projection w projection)) sel \<and>
         ((\<forall>p. projection \<noteq> PDict p) \<longrightarrow> rs = sel) \<and>
         (\<forall>d \<in> set sel. d \<in> set (docs (collection w)) \<and>
                          matches (collection w) (read_filter w query) d) \<and>
         (limit \<le> 0 \<longrightarrow>
            mset sel = mset (filter (matches (collection w) (read_filter w query)) (docs (collection w)))) \<and>
         (limit \<le> 0 \<and> read_filter w query = [] \<longrightarrow> mset sel = mset (docs (collection w))) \<and>
         (limit \<le> 0 \<and> read_sort sort_field sort_order = None \<longrightarrow>
            sel = filter (matches (collection w) (read_filter w query)) (docs (collection w))) \<and>
         (0 < limit \<longrightarrow> length rs \<le> nat limit)))"
proof (intro conjI allI impI)
  assume "fault (collection w) = None"
  with read_ok [of PNone w None 1 PNone 0]
  show "fst (read PNone PNone 0 None 1 w) = Inr (docs (collection w))"
    by (simp add: read_sort_def read_projection_def read_filter_def bad_sort_def bad_projection_def
          selected_read_cursor sort_docs_def)
next
  assume "(query = PNone \<or> (\<exists>a. query = PDict a)) \<and> fault (collection w) = None \<and>
    \<not> bad_sort (read_sort sort_field sort_order) \<and> \<not> bad_projection (read_projection w projection)"
  with read_ok [of query w sort_field sort_order projection limit]
  show "\<exists>rs. fst (read query projection limit sort_field sort_order w) = Inr rs" by simp
next
  fix rs assume r: "fst (read query projection limit sort_field sort_order w) = Inr rs"
  define ms where "ms = filter (matches (collection w) (read_filter w query)) (docs (collection w))"
  define sel where "sel = limit_docs (if 0 < limit then nat limit else 0)
                            (sort_docs (read_sort sort_field sort_order) ms)"
  have rs: "rs = map (project_doc (read_projection w projection)) sel"
    using read_Inr_selected [OF r] by (simp add: selected_read_cursor sel_def ms_def)
  have np: "(\<forall>p. projection \<noteq> PDict p) \<longrightarrow> rs = sel"
  proof
    assume "\<forall>p. projection \<noteq> PDict p"
    then have "read_projection w projection = None"
      by (cases projection) (simp_all add: read_projection_def)
    with rs show "rs = sel" by simp
  qed
  have sub: "set sel \<subseteq> set ms"
    using set_limit_docs [of _ "sort_docs (read_sort sort_field sort_order) ms"]
    by (simp add: sel_def)
  then have m: "\<forall>d \<in> set sel. d \<in> set (docs (collection w)) \<and>
                          matches (collection w) (read_filter w query) d"
    by (auto simp: ms_def)
  have all: "limit \<le> 0 \<longrightarrow> mset sel = mset ms"
    by (simp add: sel_def)
  have every: "limit \<le> 0 \<and> read_filter w query = [] \<longrightarrow> mset sel = mset (docs (collection w))"
    by (simp add: sel_def ms_def)
  have ordered: "limit \<le> 0 \<and> read_sort sort_field sort_order = None \<longrightarrow> sel = ms"
    by (simp add: sel_def sort_docs_def)
  have bound: "0 < limit \<longrightarrow> length rs \<le> nat limit"
    by (simp add: rs sel_def length_limit_docs)
  from rs np m all every ordered bound
  show "\<exists>sel. rs = map (project_doc (read_projection w projection)) sel \<and>
         ((\<forall>p. projection \<noteq> PDict p) \<longrightarrow> rs = sel) \<and>
         (\<forall>d \<in> set sel. d \<in> set (docs (collection w)) \<and>
                          matches (collection w) (read_filter w query) d) \<and>
         (limit \<le> 0 \<longrightarrow>
            mset sel = mset (filter (matches (collection w) (read_filter w query)) (docs (collection w)))) \<and>
         (limit \<le> 0 \<and> read_filter w query = [] \<longrightarrow> mset sel = mset (docs (collection w))) \<and>
         (limit \<le> 0 \<and> read_sort sort_field sort_order = None \<longrightarrow>
            sel = filter (matches (collection w) (read_filter w query)) (docs (collection w))) \<and>
         (0 < limit \<longrightarrow> length rs \<le> nat limit)"
    unfolding ms_def [symmetric] by blast
qed

theorem read_returns_matching_records_witness:
  "fault (collection dog_world) = None \<and>
   fst (read PNone PNone 0 None 1 dog_world) = Inr [rec_a1, rec_a2] \<and>
   fst (read (PDict 0) PNone 1 None 1 dog_world) = Inr [rec_a1] \<and>
   matches (collection dog_world) (read_filter dog_world (PDict 0)) rec_a1 \<and>
   py_get rec_a1 ''animal_type'' = VStr ''Dog''"
proof -
  have f: "fault (collection dog_world) = None" "docs (collection dog_world) = [rec_a1, rec_a2]"
    by code_simp+
  have r: "fst (read (PDict 0) PNone 1 None 1 dog_world) = Inr [rec_a1]"
    by code_simp
  have t: "py_get rec_a1 ''animal_type'' = VStr ''Dog''"
    by code_simp
  from read_returns_matching_records [of dog_world "PDict 0" None 1 PNone 1] f r t
  show ?thesis by simp
qed

section \<open>What create stores\<close>

lemma with_id_fields [simp]:
  "docs (snd (with_id d c)) = docs c"
  "acknowledged (snd (with_id d c)) = acknowledged c"
  "fault (snd (with_id d c)) = fault c"
  "matcher (snd (with_id d c)) = matcher c"
  "seed (snd (with_id d c)) = seed c"
  "calls (snd (with_id d c)) = calls c"
  by (simp_all add: with_id_def)

lemma id_taken_with_id [simp]: "id_taken i (snd (with_id d c)) = id_taken i c"
  by (simp add: id_taken_def)

lemma id_taken_recorded [simp]: "id_taken i (recorded x c) = id_taken i c"
  by (simp add: id_taken_def)

lemma insert_one_Inr:
  assumes "insert_one d c = (Inr res, d', c')"
  shows "d' = fst (with_id d c) \<and> ir_inserted_id res = py_get d' ''_id'' \<and>
         ir_acknowledged res = acknowledged c \<and> fault c = None \<and>
         calls c' = calls c @ [InsertOne d'] \<and>
         (acknowledged c \<longrightarrow> docs c' = docs c @ [d']) \<and>
         (docs c' = docs c @ [d'] \<or> docs c' = docs c)"
  using assms
  by (auto simp: insert_one_def Let_def case_prod_beta split: option.splits if_splits)

lemma insert_one_ok:
  assumes "fault c = None" and "\<not> id_taken (py_get (fst (with_id d c)) ''_id'') c"
  shows "fst (insert_one d c) = Inr (InsertOneResult (py_get (fst (with_id d c)) ''_id'') (acknowledged c))"
  using assms
  by (simp add: insert_one_def Let_def case_prod_beta)

lemma create_body_Inr_valid:
  assumes "fst (create_body (PDict a) actor w) = Inr out"
  shows "heap w a \<noteq> [] \<and>
         validate_required_fields (heap w a) [''animal_id'', ''animal_type'', ''breed''] = Inr ()"
  using assms
  by (auto simp: create_body_def require_dict_def split: sum.splits if_splits)

lemma create_body_valid:
  assumes "heap w a \<noteq> []"
    and "validate_required_fields (heap w a) [''animal_id'', ''animal_type'', ''breed''] = Inr ()"
    and "insert_one (setitem (heap w a) ''created_timestamp'' (VTime (clock w (ticks w))))
           (collection w) = (r, d', c')"
  shows "fst (create_body (PDict a) actor w) =
           (case r of
              Inl exc \<Rightarrow> Inl exc
            | Inr res \<Rightarrow> Inr [(''ok'', VBool (ir_acknowledged res)),
                               (''inserted_id'', VStr (py_str (ir_inserted_id res)))]) \<and>
         collection (snd (create_body (PDict a) actor w)) = c'"
  using assms
  by (simp add: create_body_def require_dict_def Let_def utcnow_def split: sum.splits)

lemma create_body_Inr:
  assumes "fst (create_body (PDict a) actor w) = Inr out"
  shows "\<exists>res c'. insert_one (setitem (heap w a) ''created_timestamp'' (VTime (clock w (ticks w))))
                     (collection w) = (Inr res, created_record w a, c') \<and>
           out = [(''ok'', VBool (ir_acknowledged res)),
                  (''inserted_id'', VStr (py_str (ir_inserted_id res)))] \<and>
           collection (snd (create_body (PDict a) actor w)) = c'"
proof -
  define d where "d = setitem (heap w a) ''created_timestamp'' (VTime (clock w (ticks w)))"
  obtain r d' c' where io: "insert_one d (collection w) = (r, d', c')"
    by (cases "insert_one d (collection w)")
  with insert_one_document [of d "collection w"] have d': "d' = created_record w a"
    by (simp add: created_record_def d_def)
  note v = create_body_Inr_valid [OF assms]
  from create_body_valid [OF v [THEN conjunct1] v [THEN conjunct2] io [unfolded d_def], of actor] assms
  obtain res where "r = Inr res"
    and "out = [(''ok'', VBool (ir_acknowledged res)),
                (''inserted_id'', VStr (py_str (ir_inserted_id res)))]"
    and "collection (snd (create_body (PDict a) actor w)) = c'"
    by (cases r) auto
  with io d' show ?thesis by (auto simp: d_def)
qed

lemma create_body_ok:
  assumes "heap w a \<noteq> []"
    and "has_key (heap w a) ''animal_id''" "has_key (heap w a) ''animal_type''" "has_key (heap w a) ''breed''"
    and "fault (collection w) = None"
    and "\<not> id_taken (py_get (created_record w a) ''_id'') (collection w)"
  shows "fst (create_body (PDict a) actor w) =
           Inr [(''ok'', VBool (acknowledged (collection w))),
                (''inserted_id'', VStr (py_str (py_get (created_record w a) ''_id'')))]"
proof -
  define d where "d = setitem (heap w a) ''created_timestamp'' (VTime (clock w (ticks w)))"
  have "fst (insert_one d (collection w)) =
          Inr (InsertOneResult (py_get (created_record w a) ''_id'') (acknowledged (collection w)))"
    using insert_one_ok [of "collection w" d] assms(5,6) by (simp add: created_record_def d_def)
  then obtain d' c' where io: "insert_one d (collection w) =
      (Inr (InsertOneResult (py_get (created_record w a) ''_id'') (acknowledged (collection w))), d', c')"
    by (cases "insert_one d (collection w)") auto
  have v: "validate_required_fields (heap w a) [''animal_id'', ''animal_type'', ''breed''] = Inr ()"
    using assms(2-4) by (simp add: validate_required_fields_def)
  from create_body_valid [OF assms(1) v io [unfolded d_def], of actor] show ?thesis by simp
qed

text \<open>
  C4. \<open>create\<close> succeeds on a non-empty mapping that has the three required
  fields when the collection raises nothing and the record's \<open>_id\<close> is free. Whenever
  it succeeds it returns \<open>{ok, inserted_id}\<close>, where \<open>ok\<close> is the collection's
  acknowledgment and \<open>inserted_id\<close> the string of the record's \<open>_id\<close>; it has made
  exactly one call to the collection, the insert of the record, and when the write is
  acknowledged the record is stored as the last document. The record carries
  \<open>created_timestamp\<close> equal to the instant read from the clock, whatever the caller
  supplied for that key, and apart from it and \<open>_id\<close> the fields the caller gave.
\<close>

theorem create_stamps_and_stores:
  "(heap w a \<noteq> [] \<and> has_key (heap w a) ''animal_id'' \<and> has_key (heap w a) ''animal_type'' \<and>
    has_key (heap w a) ''breed'' \<and> fault (collection w) = None \<and>
    \<not> id_taken (py_get (created_record w a) ''_id'') (collection w) \<longrightarrow>
      (\<exists>out. fst (create (PDict a) actor w) = Inr out)) \<and>
   (\<forall>out. fst (create (PDict a) actor w) = Inr out \<longrightarrow>
      out = [(''ok'', VBool (acknowledged (collection w))),
             (''inserted_id'', VStr (py_str (py_get (created_record w a) ''_id'')))] \<and>
      calls (collection (snd (create (PDict a) actor w))) =
        calls (collection w) @ [InsertOne (created_record w a)] \<and>
      (acknowledged (collection w) \<longrightarrow>
         docs (collection (snd (create (PDict a) actor w))) = docs (collection w) @ [created_record w a])) \<and>
   map_of (created_record w a) ''created_timestamp'' = Some (VTime (clock w (ticks w))) \<and>
   (\<forall>k. k \<noteq> ''created_timestamp'' \<and> k \<noteq> ''_id'' \<longrightarrow>
      map_of (created_record w a) k = map_of (heap w a) k)"
proof (intro conjI allI impI)
  assume "heap w a \<noteq> [] \<and> has_key (heap w a) ''animal_id'' \<and> has_key (heap w a) ''animal_type'' \<and>
    has_key (heap w a) ''breed'' \<and> fault (collection w) = None \<and>
    \<not> id_taken (py_get (created_record w a) ''_id'') (collection w)"
  then show "\<exists>out. fst (create (PDict a) actor w) = Inr out"
    using create_body_ok [of w a actor] by (simp add: create_def)
next
  fix out assume "fst (create (PDict a) actor w) = Inr out"
  then have b: "fst (create_body (PDict a) actor w) = Inr out" by (simp add: create_def)
  from create_body_Inr [OF b] obtain res c' where
    io: "insert_one (setitem (heap w a) ''created_timestamp'' (VTime (clock w (ticks w))))
           (collection w) = (Inr res, created_record w a, c')"
    and out: "out = [(''ok'', VBool (ir_acknowledged res)),
                     (''inserted_id'', VStr (py_str (ir_inserted_id res)))]"
    and c': "collection (snd (create_body (PDict a) actor w)) = c'"
    by blast
  note facts = insert_one_Inr [OF io]
  have cc: "collection (snd (create (PDict a) actor w)) = c'"
    using c' by (simp add: create_def)
  show "out = [(''ok'', VBool (acknowledged (collection w))),
             (''inserted_id'', VStr (py_str (py_get (created_record w a) ''_id'')))]"
    using out facts by simp
  show "calls (collection (snd (create (PDict a) actor w))) =
        calls (collection w) @ [InsertOne (created_record w a)]"
    using facts by (simp add: cc)
  assume "acknowledged (collection w)"
  then show "docs (collection (snd (create (PDict a) actor w))) = docs (collection w) @ [created_record w a]"
    using facts by (simp add: cc)
next
  show "map_of (created_record w a) ''created_timestamp'' = Some (VTime (clock w (ticks w)))"
    by (simp add: created_record_def with_id_lookup)
next
  fix k assume "k \<noteq> ''created_timestamp'' \<and> k \<noteq> ''_id''"
  then show "map_of (created_record w a) k = map_of (heap w a) k"
    by (simp add: created_record_def with_id_lookup)
qed

theorem create_stamps_and_stores_witness:
  "map_of (heap intake_world 0) ''created_timestamp'' = Some (VStr ''yesterday'') \<and>
   fst (create (PDict 0) None intake_world) =
     Inr [(''ok'', VBool True), (''inserted_id'', VStr ''000000000000000000000002'')] \<and>
   docs (collection (snd (create (PDict 0) None intake_world))) =
     [rec_a1, rec_a2,
      [(''animal_id'', VStr ''A3''), (''animal_type'', VStr ''Dog''), (''breed'', VStr ''Pug''),
       (''created_timestamp'', VTime 100), (''_id'', VId 2)]]"
proof -
  have c: "fst (create (PDict 0) None intake_world) =
     Inr [(''ok'', VBool True), (''inserted_id'', VStr ''000000000000000000000002'')]"
    by code_simp
  have k: "map_of (heap intake_world 0) ''created_timestamp'' = Some (VStr ''yesterday'')"
    "acknowledged (collection intake_world)"
    "docs (collection intake_world) = [rec_a1, rec_a2]"
    "created_record intake_world 0 =
       [(''animal_id'', VStr ''A3''), (''animal_type'', VStr ''Dog''), (''breed'', VStr ''Pug''),
        (''created_timestamp'', VTime 100), (''_id'', VId 2)]"
    by code_simp+
  from create_stamps_and_stores [of intake_world 0 None] c k
  show ?thesis by simp
qed

section \<open>What update changes\<close>

lemma map_of_set_fields: "map_of (set_fields d nv) = map_of d ++ map_of (rev nv)"
proof (induction nv arbitrary: d)
  case Nil
  show ?case by (simp add: set_fields_def)
next
  case (Cons x xs)
  obtain k v where x: "x = (k, v)" by (cases x)
  have "map_of (set_fields d (x # xs)) = map_of (set_fields (AList.update k v d) xs)"
    by (simp add: set_fields_def x)
  also have "\<dots> = (map_of d)(k \<mapsto> v) ++ map_of (rev xs)"
    by (auto simp: Cons.IH update_conv' fun_eq_iff map_add_def split: option.splits)
  also have "\<dots> = map_of d ++ map_of (rev (x # xs))"
    by (simp add: x)
  finally show ?case .
qed

lemma map_of_rev_distinct: "distinct (map fst xs) \<Longrightarrow> map_of (rev xs) = map_of xs"
proof (induction xs)
  case Nil
  show ?case by simp
next
  case (Cons x xs)
  obtain k v where x: "x = (k, v)" by (cases x)
  from Cons.prems x have "map_of xs k = None"
    by (simp add: map_of_eq_None_iff)
  with Cons show ?case
    by (auto simp: x fun_eq_iff map_add_def split: option.splits)
qed

lemma set_fields_frame:
  "k \<notin> fst ` set nv \<Longrightarrow> map_of (set_fields d nv) k = map_of d k"
proof -
  assume "k \<notin> fst ` set nv"
  then have "map_of (rev nv) k = None"
    by (simp add: map_of_eq_None_iff)
  then show ?thesis
    by (simp add: map_of_set_fields map_add_def)
qed

lemma set_fields_named:
  "distinct (map fst nv) \<Longrightarrow> map_of nv k = Some v \<Longrightarrow> map_of (set_fields d nv) k = Some v"
  by (simp add: map_of_set_fields map_of_rev_distinct map_add_def)

lemma apply_set_None:
  "apply_set m nv ds = (None, ds', a, b) \<Longrightarrow>
     ds' = map (\<lambda>d. if m d then set_fields d nv else d) ds \<and> a = length (filter m ds)"
proof (induction ds arbitrary: ds' a b)
  case Nil
  then show ?case by simp
next
  case (Cons d ds)
  obtain e ds0 a0 b0 where r: "apply_set m nv ds = (e, ds0, a0, b0)"
    by (cases "apply_set m nv ds") auto
  with Cons.prems have e: "e = None"
    by (auto split: if_splits)
  from Cons.IH [OF r [unfolded e]] Cons.prems r e show ?case
    by (auto split: if_splits)
qed

lemma update_many_Inr:
  assumes "update_many q nv upsert c = (Inr res, c')"
  shows "take (length (docs c)) (docs c') =
           map (\<lambda>d. if matches c q d then set_fields d nv else d) (docs c) \<and>
         length (docs c) \<le> length (docs c') \<and>
         (\<not> upsert \<longrightarrow> length (docs c') = length (docs c))"
proof -
  obtain e ds' a b where r: "apply_set (matches c q) nv (docs c) = (e, ds', a, b)"
    by (cases "apply_set (matches c q) nv (docs c)") auto
  with assms have e: "e = None"
    by (cases e) (auto simp: update_many_def Let_def split: option.splits)
  note m = apply_set_None [OF r [unfolded e]]
  show ?thesis
  proof (cases "a = 0 \<and> upsert")
    case True
    with m have same: "ds' = docs c"
      by (auto simp: filter_empty_conv map_idI)
    from assms r e True have "docs c' = docs c @ [fst (with_id (set_fields (seed c q) nv) (recorded (UpdateMany q nv upsert) c))]
        \<or> docs c' = docs c"
      by (auto simp: update_many_def Let_def case_prod_beta split: option.splits if_splits)
    with m same True show ?thesis by auto
  next
    case False
    with assms r e have "docs c' = ds'"
      by (auto simp: update_many_def Let_def split: option.splits if_splits)
    with m show ?thesis by simp
  qed
qed


lemma update_body_valid:
  assumes "heap w q \<noteq> []" and "heap w nv \<noteq> []"
    and um: "update_many (update_filter w q nv) (stamped_values w nv) upsert (collection w) = (r, c')"
  shows "fst (update_body (PDict q) (PDict nv) upsert actor w) =
           (case r of Inl exc \<Rightarrow> Inl exc | Inr res \<Rightarrow> update_out res) \<and>
         collection (snd (update_body (PDict q) (PDict nv) upsert actor w)) = c'"
proof -
  define w1 where "w1 = w\<lparr>ticks := Suc (ticks w)\<rparr>"
  define w2 where "w2 = store nv (setitem (heap w1 nv) ''last_modified_timestamp''
                                    (VTime (clock w (ticks w)))) w1"
  have r: "require_dict (heap w) (PDict q) ''query'' False = Inr q"
    "require_dict (heap w) (PDict nv) ''new_values'' False = Inr nv"
    using assms(1,2) by (simp_all add: require_dict_def)
  have e: "heap w2 q = update_filter w q nv" "heap w2 nv = stamped_values w nv"
    "collection w2 = collection w"
    by (simp_all add: w2_def w1_def update_filter_def stamped_values_def)
  show ?thesis
    unfolding update_body_def r sum.case utcnow_def Let_def prod.case
    unfolding w1_def [symmetric] w2_def [symmetric] e um prod.case
    by (cases r) (simp_all split: sum.splits)
qed

lemma update_body_Inr:
  assumes "fst (update_body (PDict q) (PDict nv) upsert actor w) = Inr out"
  shows "\<exists>res c'. update_many (update_filter w q nv) (stamped_values w nv) upsert (collection w) =
                     (Inr res, c') \<and>
                   collection (snd (update_body (PDict q) (PDict nv) upsert actor w)) = c'"
proof -
  obtain r c' where um: "update_many (update_filter w q nv) (stamped_values w nv) upsert (collection w) =
      (r, c')"
    by (cases "update_many (update_filter w q nv) (stamped_values w nv) upsert (collection w)")
  from assms have ne: "heap w q \<noteq> []" "heap w nv \<noteq> []"
    by (auto simp: update_body_def require_dict_def split: sum.splits if_splits)
  from update_body_valid [OF ne um, of actor] assms obtain res where "r = Inr res"
    by (cases r) auto
  with update_body_valid [OF ne um, of actor] um show ?thesis by auto
qed

text \<open>
  C5. A successful \<open>update(q, nv)\<close> keeps every stored record in its place (with
  \<open>upsert\<close> one record may be added after them). A record that does not match the
  filter is unchanged. A record that matches is merged with the new values: every field
  that is neither named in \<open>nv\<close> nor \<open>last_modified_timestamp\<close> keeps its value (or
  its absence), \<open>last_modified_timestamp\<close> becomes the instant read from the clock,
  whatever the caller put under that key, and the other fields named in \<open>nv\<close> take
  the values of \<open>nv\<close>. The filter is the caller's \<open>q\<close> as the collection receives
  it: when \<open>q\<close> and \<open>nv\<close> are one and the same object, it carries the timestamp
  too.
\<close>

theorem update_changes_only_named_fields:
  assumes "fst (update (PDict q) (PDict nv) upsert actor w) = Inr out"
    and "c = collection w"
    and "c' = collection (snd (update (PDict q) (PDict nv) upsert actor w))"
  shows "length (docs c) \<le> length (docs c') \<and>
         (\<not> upsert \<longrightarrow> length (docs c') = length (docs c)) \<and>
         (\<forall>i < length (docs c).
            (\<not> matches c (update_filter w q nv) (docs c ! i) \<longrightarrow> docs c' ! i = docs c ! i) \<and>
            (matches c (update_filter w q nv) (docs c ! i) \<longrightarrow>
               docs c' ! i = set_fields (docs c ! i) (stamped_values w nv) \<and>
               (\<forall>k. k \<notin> fst ` set (heap w nv) \<and> k \<noteq> ''last_modified_timestamp'' \<longrightarrow>
                    map_of (docs c' ! i) k = map_of (docs c ! i) k) \<and>
               (distinct (map fst (heap w nv)) \<longrightarrow>
                  map_of (docs c' ! i) ''last_modified_timestamp'' = Some (VTime (clock w (ticks w))) \<and>
                  (\<forall>k v. k \<noteq> ''last_modified_timestamp'' \<and> map_of (heap w nv) k = Some v \<longrightarrow>
                         map_of (docs c' ! i) k = Some v))))"
proof -
  from assms(1) have b: "fst (update_body (PDict q) (PDict nv) upsert actor w) = Inr out"
    by (simp add: update_def)
  from update_body_Inr [OF b] obtain res c0 where
    um: "update_many (update_filter w q nv) (stamped_values w nv) upsert (collection w) = (Inr res, c0)"
    and c0: "collection (snd (update_body (PDict q) (PDict nv) upsert actor w)) = c0"
    by blast
  from c0 assms(3) have cc: "c' = c0" by (simp add: update_def)
  note u = update_many_Inr [OF um, folded assms(2) cc]
  have keys: "fst ` set (stamped_values w nv) = insert ''last_modified_timestamp'' (fst ` set (heap w nv))"
    by (simp add: stamped_values_def setitem_def dom_update)
  have dist: "distinct (map fst (heap w nv)) \<Longrightarrow> distinct (map fst (stamped_values w nv))"
    by (simp add: stamped_values_def setitem_def distinct_update)
  have look: "\<And>k. map_of (stamped_values w nv) k =
      (if k = ''last_modified_timestamp'' then Some (VTime (clock w (ticks w))) else map_of (heap w nv) k)"
    by (simp add: stamped_values_def)
  {
    fix i assume i: "i < length (docs c)"
    have "docs c' ! i = take (length (docs c)) (docs c') ! i"
      using i by simp
    also have "\<dots> = map (\<lambda>d. if matches c (update_filter w q nv) d
                               then set_fields d (stamped_values w nv) else d) (docs c) ! i"
      using u by simp
    finally have nth: "docs c' ! i =
        (if matches c (update_filter w q nv) (docs c ! i)
         then set_fields (docs c ! i) (stamped_values w nv) else docs c ! i)"
      using i by simp
    have n: "\<not> matches c (update_filter w q nv) (docs c ! i) \<longrightarrow> docs c' ! i = docs c ! i"
      using nth by simp
    have m: "matches c (update_filter w q nv) (docs c ! i) \<longrightarrow>
               docs c' ! i = set_fields (docs c ! i) (stamped_values w nv) \<and>
               (\<forall>k. k \<notin> fst ` set (heap w nv) \<and> k \<noteq> ''last_modified_timestamp'' \<longrightarrow>
                    map_of (docs c' ! i) k = map_of (docs c ! i) k) \<and>
               (distinct (map fst (heap w nv)) \<longrightarrow>
                  map_of (docs c' ! i) ''last_modified_timestamp'' = Some (VTime (clock w (ticks w))) \<and>
                  (\<forall>k v. k \<noteq> ''last_modified_timestamp'' \<and> map_of (heap w nv) k = Some v \<longrightarrow>
                         map_of (docs c' ! i) k = Some v))"
    proof (intro impI conjI allI)
      assume mt: "matches c (update_filter w q nv) (docs c ! i)"
      with nth show eq: "docs c' ! i = set_fields (docs c ! i) (stamped_values w nv)" by simp
      {
        fix k assume "k \<notin> fst ` set (heap w nv) \<and> k \<noteq> ''last_modified_timestamp''"
        then have "k \<notin> fst ` set (stamped_values w nv)" by (simp add: keys)
        then show "map_of (docs c' ! i) k = map_of (docs c ! i) k"
          unfolding eq by (rule set_fields_frame)
      }
      assume d: "distinct (map fst (heap w nv))"
      show "map_of (docs c' ! i) ''last_modified_timestamp'' = Some (VTime (clock w (ticks w)))"
        unfolding eq by (rule set_fields_named [OF dist [OF d]]) (simp add: look)
      fix k v assume "k \<noteq> ''last_modified_timestamp'' \<and> map_of (heap w nv) k = Some v"
      then have "map_of (stamped_values w nv) k = Some v" by (simp add: look)
      then show "map_of (docs c' ! i) k = Some v"
        unfolding eq by (rule set_fields_named [OF dist [OF d]])
    qed
    note n m
  }
  with u show ?thesis by blast
qed

theorem update_changes_only_named_fields_witness:
  "fst (update (PDict 0) (PDict 1) False None rename_world) =
     Inr [(''ok'', VBool True), (''matched'', VInt 1), (''modified'', VInt 1), (''upserted_id'', VNone)] \<and>
   docs (collection rename_world) = [rec_a1, rec_a2] \<and>
   distinct (map fst (heap rename_world 1)) \<and>
   matches (collection rename_world) (update_filter rename_world 0 1) rec_a1 \<and>
   \<not> matches (collection rename_world) (update_filter rename_world 0 1) rec_a2 \<and>
   docs (collection (snd (update (PDict 0) (PDict 1) False None rename_world))) =
     [[(''_id'', VId 0), (''animal_id'', VStr ''A1''), (''animal_type'', VStr ''Dog''),
       (''breed'', VStr ''Labrador''), (''created_timestamp'', VTime 50),
       (''last_modified_timestamp'', VTime 100)],
      rec_a2]"
proof -
  have u: "fst (update (PDict 0) (PDict 1) False None rename_world) =
     Inr [(''ok'', VBool True), (''matched'', VInt 1), (''modified'', VInt 1), (''upserted_id'', VNone)]"
    by code_simp
  have k: "docs (collection rename_world) = [rec_a1, rec_a2]"
    "distinct (map fst (heap rename_world 1))"
    "matches (collection rename_world) (update_filter rename_world 0 1) rec_a1"
    "\<not> matches (collection rename_world) (update_filter rename_world 0 1) rec_a2"
    "set_fields rec_a1 (stamped_values rename_world 1) =
       [(''_id'', VId 0), (''animal_id'', VStr ''A1''), (''animal_type'', VStr ''Dog''),
        (''breed'', VStr ''Labrador''), (''created_timestamp'', VTime 50),
        (''last_modified_timestamp'', VTime 100)]"
    by code_simp+
  from update_changes_only_named_fields [OF u refl refl]
  have n: "length (docs (collection (snd (update (PDict 0) (PDict 1) False None rename_world)))) = 2"
    and a: "docs (collection (snd (update (PDict 0) (PDict 1) False None rename_world))) ! 0 =
       set_fields rec_a1 (stamped_values rename_world 1)"
    and b: "docs (collection (snd (update (PDict 0) (PDict 1) False None rename_world))) ! 1 = rec_a2"
    using k by (simp_all add: nth_Cons')
  have "docs (collection (snd (update (PDict 0) (PDict 1) False None rename_world))) =
     [set_fields rec_a1 (stamped_values rename_world 1), rec_a2]"
    using n a b by (intro nth_equalityI) (auto simp: nth_Cons' less_Suc_eq numeral_2_eq_2)
  with u k show ?thesis by simp
qed

section \<open>stats\<close>

lemma sorted_map_last_max:
  "sorted (map f ys) \<Longrightarrow> x \<in> set ys \<Longrightarrow> f x \<le> f (last ys)"
  by (induction ys) (auto split: if_splits)

lemma sort_key_last_max:
  assumes "x \<in> set xs"
  shows "f x \<le> f (last (sort_key f xs))"
  using sorted_map_last_max [of f "sort_key f xs" x] assms by simp

lemma sort_key_eq_Nil: "sort_key f xs = [] \<longleftrightarrow> xs = []"
  by (metis length_sort length_0_conv)

lemma sort_key_last_in:
  assumes "xs \<noteq> []"
  shows "last (sort_key f xs) \<in> set xs"
proof -
  from assms have "sort_key f xs \<noteq> []"
    by (simp add: sort_key_eq_Nil)
  then have "last (sort_key f xs) \<in> set (sort_key f xs)" by (rule last_in_set)
  then show ?thesis by simp
qed

lemma take_1_rev: "ys \<noteq> [] \<Longrightarrow> take 1 (rev ys) = [last ys]"
  by (cases ys rule: rev_cases) simp_all

lemma map_of_filter_key:
  "map_of (filter (\<lambda>(k, v). P k) d) k = (if P k then map_of d k else None)"
  by (induction d) auto

lemma rank_le_null:
  "sort_rank x \<le> (0, 0, []) \<Longrightarrow> x = None \<or> x = Some VNone"
proof (cases x)
  case None
  then show ?thesis by simp
next
  case (Some v)
  assume "sort_rank x \<le> (0, 0, [])"
  with Some show ?thesis by (cases v) simp_all
qed

lemma rank_time [simp]:
  "sort_rank (Some (VTime s)) \<le> sort_rank (Some (VTime t)) \<longleftrightarrow> s \<le> t"
  by auto

lemma py_get_null: "py_get d k = VNone \<longleftrightarrow> map_of d k = None \<or> map_of d k = Some VNone"
  by (simp add: py_get_def split: option.splits)

lemma stats_projection_keeps: "proj_keeps stats_projection ''created_timestamp''"
  by (simp add: stats_projection_def proj_keeps_def proj_inclusive_def proj_others_def proj_spec_def)

lemma stats_projection_not_mixed: "\<not> bad_projection (Some stats_projection)"
  by (simp add: stats_projection_def bad_projection_def proj_mixed_def proj_others_def proj_spec_def)

lemma py_get_stats_projection:
  "py_get (project_doc (Some stats_projection) d) ''created_timestamp'' = py_get d ''created_timestamp''"
  using stats_projection_keeps
  by (simp add: project_doc_def py_get_def map_of_filter_key)

lemma latest_first:
  "py_get (case map (project_doc (Some stats_projection))
                  (limit_docs 1 (rev (sort_key (\<lambda>d. sort_rank (map_of d ''created_timestamp'')) ds))) of
             [] \<Rightarrow> [] | d # ds \<Rightarrow> d) ''created_timestamp'' = latest_of ds"
proof (cases "ds = []")
  case True
  then show ?thesis by (simp add: latest_of_def limit_docs_def py_get_def)
next
  case False
  then have "sort_key (\<lambda>d. sort_rank (map_of d ''created_timestamp'')) ds \<noteq> []"
    by (simp add: sort_key_eq_Nil)
  from take_1_rev [OF this] have
    "limit_docs 1 (rev (sort_key (\<lambda>d. sort_rank (map_of d ''created_timestamp'')) ds)) =
       [last (sort_key (\<lambda>d. sort_rank (map_of d ''created_timestamp'')) ds)]"
    by (simp add: limit_docs_def)
  then show ?thesis
    using False by (simp add: latest_of_def py_get_stats_projection)
qed

lemma stats_body_ok:
  assumes "fault (collection w) = None"
  shows "fst (stats_body w) =
           Inr [(''count'', VInt (int (length (docs (collection w))))),
                (''latest_created_timestamp'', latest_of (docs (collection w)))]"
proof -
  define c1 where "c1 = recorded EstimatedDocumentCount (collection w)"
  define latest where "latest = cursor_limit 1 (cursor_sort ''created_timestamp'' (- 1)
                          (find_coll [] (Some [(''created_timestamp'', VInt 1)])))"
  have cnt: "estimated_document_count (collection w) = (Inr (length (docs (collection w))), c1)"
    using assms by (simp add: estimated_document_count_def c1_def Let_def)
  have f: "c_filter latest = []" "c_projection latest = Some stats_projection"
    "c_sort latest = Some (''created_timestamp'', - 1)" "c_limit latest = 1"
    by (simp_all add: latest_def cursor_limit_def cursor_sort_def find_coll_def stats_projection_def)
  have sel: "selected latest c1 =
      limit_docs 1 (rev (sort_key (\<lambda>d. sort_rank (map_of d ''created_timestamp'')) (docs (collection w))))"
    by (simp add: selected_def f sort_docs_def c1_def)
  have "fst (list_cursor latest c1) = Inr (map (project_doc (Some stats_projection)) (selected latest c1))"
    using list_cursor_ok [of c1 latest] assms stats_projection_not_mixed
    by (simp add: f bad_sort_def c1_def)
  then obtain c2 where lc: "list_cursor latest c1 =
      (Inr (map (project_doc (Some stats_projection)) (selected latest c1)), c2)"
    by (cases "list_cursor latest c1") auto
  have ts: "py_get (case map (project_doc (Some stats_projection)) (selected latest c1) of
                      [] \<Rightarrow> [] | d # ds \<Rightarrow> d) ''created_timestamp'' = latest_of (docs (collection w))"
    unfolding sel by (rule latest_first)
  show ?thesis
    unfolding stats_body_def cnt prod.case sum.case Let_def latest_def [symmetric] lc ts
    by simp
qed


lemma stats_ok:
  assumes "fault (collection w) = None"
  shows "fst (stats w) =
           Inr [(''count'', VInt (int (length (docs (collection w))))),
                (''latest_created_timestamp'', latest_of (docs (collection w)))]"
  using stats_body_ok [OF assms] by (simp add: stats_def)

lemma latest_of_greatest:
  assumes "ds \<noteq> []"
  shows "\<exists>d \<in> set ds. latest_of ds = py_get d ''created_timestamp'' \<and>
           (\<forall>d' \<in> set ds. sort_rank (map_of d' ''created_timestamp'') \<le>
                            sort_rank (map_of d ''created_timestamp''))"
proof -
  define f where "f = (\<lambda>d :: dict. sort_rank (map_of d ''created_timestamp''))"
  have "last (sort_key f ds) \<in> set ds" using assms by (rule sort_key_last_in)
  moreover have "latest_of ds = py_get (last (sort_key f ds)) ''created_timestamp''"
    using assms by (simp add: latest_of_def f_def)
  moreover have "\<forall>d' \<in> set ds. f d' \<le> f (last (sort_key f ds))"
    using sort_key_last_max [of _ ds f] by blast
  ultimately show ?thesis unfolding f_def by blast
qed

lemma latest_of_null:
  "latest_of ds = VNone \<longleftrightarrow> (\<forall>d \<in> set ds. py_get d ''created_timestamp'' = VNone)"
proof (cases "ds = []")
  case True
  then show ?thesis by (simp add: latest_of_def)
next
  case False
  from latest_of_greatest [OF False] obtain d where d: "d \<in> set ds"
    and l: "latest_of ds = py_get d ''created_timestamp''"
    and m: "\<forall>d' \<in> set ds. sort_rank (map_of d' ''created_timestamp'') \<le>
                            sort_rank (map_of d ''created_timestamp'')"
    by blast
  show ?thesis
  proof
    assume "latest_of ds = VNone"
    with l have "py_get d ''created_timestamp'' = VNone" by simp
    then have "sort_rank (map_of d ''created_timestamp'') = (0, 0, [])"
      by (auto simp: py_get_null)
    with m have "\<forall>d' \<in> set ds. sort_rank (map_of d' ''created_timestamp'') \<le> (0, 0, [])"
      by simp
    then show "\<forall>d \<in> set ds. py_get d ''created_timestamp'' = VNone"
      using rank_le_null by (auto simp: py_get_null)
  next
    assume "\<forall>d \<in> set ds. py_get d ''created_timestamp'' = VNone"
    with d l show "latest_of ds = VNone" by simp
  qed
qed

lemma latest_of_instants:
  assumes "ds \<noteq> []" and "\<forall>d \<in> set ds. \<exists>t. map_of d ''created_timestamp'' = Some (VTime t)"
  shows "\<exists>t. latest_of ds = VTime t \<and>
           (\<exists>d \<in> set ds. map_of d ''created_timestamp'' = Some (VTime t)) \<and>
           (\<forall>d \<in> set ds. \<forall>s. map_of d ''created_timestamp'' = Some (VTime s) \<longrightarrow> s \<le> t)"
proof -
  from latest_of_greatest [OF assms(1)] obtain d where d: "d \<in> set ds"
    and l: "latest_of ds = py_get d ''created_timestamp''"
    and m: "\<forall>d' \<in> set ds. sort_rank (map_of d' ''created_timestamp'') \<le>
                            sort_rank (map_of d ''created_timestamp'')"
    by blast
  from assms(2) d obtain t where t: "map_of d ''created_timestamp'' = Some (VTime t)" by blast
  have "latest_of ds = VTime t" using l t by (simp add: py_get_def)
  moreover have "\<forall>d' \<in> set ds. \<forall>s. map_of d' ''created_timestamp'' = Some (VTime s) \<longrightarrow> s \<le> t"
  proof (intro ballI allI impI)
    fix d' s assume "d' \<in> set ds" and s: "map_of d' ''created_timestamp'' = Some (VTime s)"
    with m have "sort_rank (map_of d' ''created_timestamp'') \<le> sort_rank (map_of d ''created_timestamp'')"
      by blast
    then show "s \<le> t" unfolding s t by auto
  qed
  ultimately show ?thesis using d t by blast
qed


text \<open>
  The latest timestamp can be null in a collection that is not empty. Starting from an
  empty shelter, \<open>update({"animal_id": "A9"}, {"breed": "Pug"}, upsert=True)\<close>
  inserts a record that has no \<open>created_timestamp\<close>; \<open>stats()\<close> then counts one
  record and reports \<open>None\<close> as the latest timestamp.
\<close>

theorem stats_latest_null_counterexample:
  "fst (update (PDict 0) (PDict 1) True None upsert_world) =
     Inr [(''ok'', VBool True), (''matched'', VInt 0), (''modified'', VInt 0),
          (''upserted_id'', VStr ''000000000000000000000000'')] \<and>
   docs (collection (snd (update (PDict 0) (PDict 1) True None upsert_world))) =
     [[(''animal_id'', VStr ''A9''), (''breed'', VStr ''Pug''),
       (''last_modified_timestamp'', VTime 100), (''_id'', VId 0)]] \<and>
   fst (stats (snd (update (PDict 0) (PDict 1) True None upsert_world))) =
     Inr [(''count'', VInt 1), (''latest_created_timestamp'', VNone)]"
  by code_simp

text \<open>
  C8. When the collection raises nothing, \<open>stats()\<close> returns
  \<open>{count, latest_created_timestamp}\<close>: \<open>count\<close> is the number of stored records,
  and \<open>latest_created_timestamp\<close> is \<open>None\<close> for an empty collection and otherwise
  the \<open>created_timestamp\<close> of a stored record whose \<open>created_timestamp\<close> sorts
  greatest (a missing one sorts as null, the lowest). It is \<open>None\<close> exactly when no
  stored record has a non-null \<open>created_timestamp\<close>. When every stored record has an
  instant as \<open>created_timestamp\<close>, it is the latest of these instants, and it is
  \<open>None\<close> exactly when the collection is empty.
\<close>

theorem stats_reports_greatest_timestamp:
  assumes "fault (collection w) = None" and "ds = docs (collection w)"
  shows "\<exists>v. fst (stats w) = Inr [(''count'', VInt (int (length ds))), (''latest_created_timestamp'', v)] \<and>
           (ds = [] \<longrightarrow> v = VNone) \<and>
           (ds \<noteq> [] \<longrightarrow>
              (\<exists>d \<in> set ds. v = py_get d ''created_timestamp'' \<and>
                 (\<forall>d' \<in> set ds. sort_rank (map_of d' ''created_timestamp'') \<le>
                                  sort_rank (map_of d ''created_timestamp'')))) \<and>
           (v = VNone \<longleftrightarrow> (\<forall>d \<in> set ds. py_get d ''created_timestamp'' = VNone)) \<and>
           ((\<forall>d \<in> set ds. \<exists>t. map_of d ''created_timestamp'' = Some (VTime t)) \<longrightarrow>
              (v = VNone \<longleftrightarrow> ds = []) \<and>
              (ds \<noteq> [] \<longrightarrow>
                 (\<exists>t. v = VTime t \<and>
                    (\<exists>d \<in> set ds. map_of d ''created_timestamp'' = Some (VTime t)) \<and>
                    (\<forall>d \<in> set ds. \<forall>s. map_of d ''created_timestamp'' = Some (VTime s) \<longrightarrow> s \<le> t))))"
proof -
  have r: "fst (stats w) = Inr [(''count'', VInt (int (length ds))),
                               (''latest_created_timestamp'', latest_of ds)]"
    using stats_ok [OF assms(1)] assms(2) by simp
  have e: "ds = [] \<longrightarrow> latest_of ds = VNone"
    by (simp add: latest_of_def)
  have g: "ds \<noteq> [] \<longrightarrow>
              (\<exists>d \<in> set ds. latest_of ds = py_get d ''created_timestamp'' \<and>
                 (\<forall>d' \<in> set ds. sort_rank (map_of d' ''created_timestamp'') \<le>
                                  sort_rank (map_of d ''created_timestamp'')))"
    using latest_of_greatest by blast
  have n: "latest_of ds = VNone \<longleftrightarrow> (\<forall>d \<in> set ds. py_get d ''created_timestamp'' = VNone)"
    by (rule latest_of_null)
  have i: "(\<forall>d \<in> set ds. \<exists>t. map_of d ''created_timestamp'' = Some (VTime t)) \<longrightarrow>
              (latest_of ds = VNone \<longleftrightarrow> ds = []) \<and>
              (ds \<noteq> [] \<longrightarrow>
                 (\<exists>t. latest_of ds = VTime t \<and>
                    (\<exists>d \<in> set ds. map_of d ''created_timestamp'' = Some (VTime t)) \<and>
                    (\<forall>d \<in> set ds. \<forall>s. map_of d ''created_timestamp'' = Some (VTime s) \<longrightarrow> s \<le> t)))"
  proof (intro impI conjI)
    assume a: "\<forall>d \<in> set ds. \<exists>t. map_of d ''created_timestamp'' = Some (VTime t)"
    {
      assume ne: "ds \<noteq> []"
      from latest_of_instants [OF ne a]
      show "\<exists>t. latest_of ds = VTime t \<and>
                    (\<exists>d \<in> set ds. map_of d ''created_timestamp'' = Some (VTime t)) \<and>
                    (\<forall>d \<in> set ds. \<forall>s. map_of d ''created_timestamp'' = Some (VTime s) \<longrightarrow> s \<le> t)" .
    }
    then show "latest_of ds = VNone \<longleftrightarrow> ds = []"
      using e by (cases "ds = []") auto
  qed
  from r e g n i show ?thesis by blast
qed

theorem stats_reports_greatest_timestamp_witness:
  "fault (collection shelter_world) = None \<and>
   docs (collection shelter_world) = [rec_a1, rec_a2] \<and>
   map_of rec_a1 ''created_timestamp'' = Some (VTime 50) \<and>
   map_of rec_a2 ''created_timestamp'' = Some (VTime 60) \<and>
   fst (stats shelter_world) = Inr [(''count'', VInt 2), (''latest_created_timestamp'', VTime 60)]"
proof -
  have k: "fault (collection shelter_world) = None"
    "docs (collection shelter_world) = [rec_a1, rec_a2]"
    "map_of rec_a1 ''created_timestamp'' = Some (VTime 50)"
    "map_of rec_a2 ''created_timestamp'' = Some (VTime 60)"
    by code_simp+
  from stats_reports_greatest_timestamp [OF k(1) k(2) [symmetric]]
  obtain v where s: "fst (stats shelter_world) =
      Inr [(''count'', VInt (int (length [rec_a1, rec_a2]))), (''latest_created_timestamp'', v)]"
    and t: "(\<forall>d \<in> set [rec_a1, rec_a2]. \<exists>t. map_of d ''created_timestamp'' = Some (VTime t)) \<longrightarrow>
             ([rec_a1, rec_a2] \<noteq> [] \<longrightarrow>
                 (\<exists>t. v = VTime t \<and>
                    (\<exists>d \<in> set [rec_a1, rec_a2]. map_of d ''created_timestamp'' = Some (VTime t)) \<and>
                    (\<forall>d \<in> set [rec_a1, rec_a2]. \<forall>s. map_of d ''created_timestamp'' = Some (VTime s) \<longrightarrow> s \<le> t)))"
    by blast
  from t k(3,4) have "v = VTime 60" by auto
  with s k show ?thesis by simp
qed

section \<open>The first version behaves alike\<close>

lemma print_line_fields [simp]:
  "heap (print_line s w) = heap w"
  "collection (print_line s w) = collection w"
  "audits (print_line s w) = audits w"
  "clock (print_line s w) = clock w"
  "ticks (print_line s w) = ticks w"
  "logged (print_line s w) = logged w"
  by (simp_all add: print_line_def)

text \<open>
  \<open>delete\<close> with an empty filter raises before it calls the collection, whatever
  \<open>confirm_delete\<close> is: the test \<open>if not query\<close> comes before the guard on
  \<open>confirm_delete\<close>, which is never reached with an empty filter.
\<close>

lemma delete_orig_empty_rejected:
  "heap w a = [] \<Longrightarrow>
     delete_orig (PDict a) confirm_delete w =
       (Inl (OtherError ''Delete operation failed: 'query' parameter is empty or None''), w)"
  by (simp add: delete_orig_def)

text \<open>
  \<open>read\<close> passes the projection on only when it is a non-empty \<open>dict\<close>; any
  other object is ignored.
\<close>

lemma read_orig_non_dict_projection:
  "\<forall>p. projection \<noteq> PDict p \<Longrightarrow>
     read_orig query projection limit sort_field sort_order w =
     read_orig query PNone limit sort_field sort_order w"
  by (cases projection) (simp_all add: read_orig_def cong: sum.case_cong)

text \<open>
  \<open>create\<close> and \<open>update\<close> write the timestamp into the caller's \<open>dict\<close>.
\<close>

lemma create_orig_stamps_argument:
  assumes "fst (create_orig (PDict a) w) = Inr ok"
  shows "py_get (heap (snd (create_orig (PDict a) w)) a) ''created_timestamp'' = VTime (clock w (ticks w))"
proof -
  define d where "d = setitem (heap w a) ''created_timestamp'' (VTime (clock w (ticks w)))"
  obtain r d' c' where io: "insert_one d (collection w) = (r, d', c')"
    by (cases "insert_one d (collection w)")
  with insert_one_document [of d "collection w"] have d': "d' = fst (with_id d (collection w))"
    by simp
  from assms have v: "heap w a \<noteq> []"
    "filter (\<lambda>field. \<not> has_key (heap w a) field) [''animal_id'', ''animal_type'', ''breed''] = []"
    by (auto simp: create_orig_def Let_def split: if_splits)
  have "heap (snd (create_orig (PDict a) w)) a = d'"
    using v io assms
    by (cases r) (simp_all add: create_orig_def utcnow_def Let_def d_def [symmetric] del: filter.simps)
  then show ?thesis
    by (simp add: d' d_def py_get_def with_id_lookup)
qed

lemma update_orig_stamps_argument:
  assumes "fst (update_orig (PDict q) (PDict nv) upsert w) = Inr info"
  shows "heap (snd (update_orig (PDict q) (PDict nv) upsert w)) nv =
           setitem (heap w nv) ''last_modified_timestamp'' (VTime (clock w (ticks w)))"
proof -
  obtain r c' where um: "update_many (update_filter w q nv) (stamped_values w nv) upsert (collection w) =
      (r, c')"
    by (cases "update_many (update_filter w q nv) (stamped_values w nv) upsert (collection w)")
  from assms have v: "heap w q \<noteq> []" "heap w nv \<noteq> []"
    by (auto simp: update_orig_def split: if_splits)
  define w1 where "w1 = w\<lparr>ticks := Suc (ticks w)\<rparr>"
  define w2 where "w2 = store nv (setitem (heap w1 nv) ''last_modified_timestamp''
                                    (VTime (clock w (ticks w)))) w1"
  have e: "heap w2 q = update_filter w q nv" "heap w2 nv = stamped_values w nv"
    "collection w2 = collection w"
    by (simp_all add: w2_def w1_def update_filter_def stamped_values_def)
  have t: "truthy_obj (heap w) (PDict q)" "truthy_obj (heap w) (PDict nv)"
    using v by simp_all
  have "heap (snd (update_orig (PDict q) (PDict nv) upsert w)) nv = heap w2 nv"
    unfolding update_orig_def t not_True_eq_False if_False pyobj.case utcnow_def Let_def prod.case
    unfolding w1_def [symmetric] w2_def [symmetric] e um prod.case
    using v by (cases r) (simp_all add: e split: sum.splits)
  then show ?thesis by (simp add: e stamped_values_def)
qed

end
